theory Spec2Isabelle
  imports Complex_Main "HOL-Library.Log_Nat"
begin

section \<open>Python floats\<close>

text \<open>
  The program computes on Python floats, which are IEEE 754 binary64 numbers with
  round-to-nearest, ties to even. A finite float is \<open>Finite m e\<close>, the number
  \<open>m * 2 ^ e\<close>, kept in the form the format has: a mantissa of exactly 53 bits, or
  the exponent -1074 for a subnormal number and for zero. The sign of zero is left
  out: the program divides only through Python's \<open>/\<close>, which raises on either zero,
  and compares, so it never observes that sign. \<open>round_to_double M E\<close> is the float
  nearest to the exact number \<open>M * 2 ^ E\<close>: it drops the low bits, rounds the tie to
  the even mantissa and overflows to an infinity.
\<close>

datatype double = Finite int int | PosInf | NegInf | NaN

definition pack :: "int \<Rightarrow> int \<Rightarrow> double" where
  "pack q t =
     (let (q, t) = (if \<bar>q\<bar> = 2 ^ 53 then (q div 2, t + 1) else (q, t))
      in if 971 < t then (if 0 < q then PosInf else NegInf) else Finite q t)"

definition round_to_double :: "int \<Rightarrow> int \<Rightarrow> double" where
  "round_to_double M E =
     (if M = 0 then Finite 0 (- 1074)
      else
        (let t = max (bitlen \<bar>M\<bar> + E - 53) (- 1074)
         in if t \<le> E then pack (M * 2 ^ nat (E - t)) t
            else
              (let s = nat (t - E);
                   q = M div 2 ^ s;
                   r = M mod 2 ^ s;
                   h = 2 ^ (s - 1)
               in pack (if h < r \<or> (r = h \<and> odd q) then q + 1 else q) t)))"

text \<open>
  The quotient of two integers scaled by \<open>2 ^ E\<close>, correctly rounded: the integer
  quotient is taken with at least 55 bits and one more bit records a remainder.
\<close>

definition round_quotient :: "int \<Rightarrow> int \<Rightarrow> int \<Rightarrow> double" where
  "round_quotient a b E =
     (let k = nat (max 0 (bitlen \<bar>b\<bar> + 55 - bitlen \<bar>a\<bar>));
          Q = (\<bar>a\<bar> * 2 ^ k) div \<bar>b\<bar>;
          R = (\<bar>a\<bar> * 2 ^ k) mod \<bar>b\<bar>;
          M = 2 * Q + (if R = 0 then 0 else 1)
      in round_to_double (if (a < 0) = (b < 0) then M else - M) (E - int k - 1))"

text \<open>
  \<open>D i\<close> is the float of the integer literal \<open>i\<close>, \<open>dec a b\<close> the float nearest to
  \<open>a / b\<close>, which is how Python reads the decimal literal \<open>a / 10 ^ k\<close>.
\<close>

definition D :: "int \<Rightarrow> double" where
  "D i = round_to_double i 0"

definition dec :: "int \<Rightarrow> int \<Rightarrow> double" where
  "dec a b = round_quotient a b 0"

fun is_finite :: "double \<Rightarrow> bool" where
  "is_finite (Finite m e) = True"
| "is_finite _ = False"

fun is_zero :: "double \<Rightarrow> bool" where
  "is_zero (Finite m e) = (m = 0)"
| "is_zero _ = False"

fun is_negative :: "double \<Rightarrow> bool" where
  "is_negative (Finite m e) = (m < 0)"
| "is_negative NegInf = True"
| "is_negative _ = False"

fun fneg :: "double \<Rightarrow> double" where
  "fneg (Finite m e) = Finite (- m) e"
| "fneg PosInf = NegInf"
| "fneg NegInf = PosInf"
| "fneg NaN = NaN"

fun fadd :: "double \<Rightarrow> double \<Rightarrow> double" where
  "fadd (Finite m1 e1) (Finite m2 e2) =
     (let E = min e1 e2
      in round_to_double (m1 * 2 ^ nat (e1 - E) + m2 * 2 ^ nat (e2 - E)) E)"
| "fadd NaN _ = NaN"
| "fadd _ NaN = NaN"
| "fadd PosInf NegInf = NaN"
| "fadd NegInf PosInf = NaN"
| "fadd PosInf _ = PosInf"
| "fadd NegInf _ = NegInf"
| "fadd _ PosInf = PosInf"
| "fadd _ NegInf = NegInf"

definition fsub :: "double \<Rightarrow> double \<Rightarrow> double" where
  "fsub a b = fadd a (fneg b)"

fun fmul :: "double \<Rightarrow> double \<Rightarrow> double" where
  "fmul (Finite m1 e1) (Finite m2 e2) = round_to_double (m1 * m2) (e1 + e2)"
| "fmul NaN _ = NaN"
| "fmul _ NaN = NaN"
| "fmul a b =
     (if is_zero a \<or> is_zero b then NaN
      else if is_negative a = is_negative b then PosInf else NegInf)"

text \<open>
  Python raises \<open>ZeroDivisionError\<close> on a division by zero, also of floats, and
  \<open>OverflowError\<close> when the quotient of two integers is too large for a float; the
  other exceptions are the ones the controllers and operations meet.
  \<open>PDFOperationError\<close> is declared as a subclass of \<open>RuntimeError\<close>.
\<close>

type_synonym path = string

datatype pdf_operation_message =
    ImagePathDoesNotExist path
  | PageOutOfRange int nat

datatype py_exception =
    RuntimeError
  | PDFOperationError pdf_operation_message
  | IndexError
  | ValueError
  | ZeroDivisionError
  | OverflowError
  | OtherException

fun is_RuntimeError :: "py_exception \<Rightarrow> bool" where
  "is_RuntimeError RuntimeError = True"
| "is_RuntimeError (PDFOperationError _) = True"
| "is_RuntimeError _ = False"

text \<open>Float division \<open>a / b\<close> and the true division of two Python integers.\<close>

fun fdiv :: "double \<Rightarrow> double \<Rightarrow> py_exception + double" where
  "fdiv a (Finite m2 e2) =
     (if m2 = 0 then Inl ZeroDivisionError
      else (case a of
              Finite m1 e1 \<Rightarrow> Inr (round_quotient m1 m2 (e1 - e2))
            | NaN \<Rightarrow> Inr NaN
            | _ \<Rightarrow> Inr (if is_negative a = (m2 < 0) then PosInf else NegInf)))"
| "fdiv _ NaN = Inr NaN"
| "fdiv NaN _ = Inr NaN"
| "fdiv (Finite m1 e1) b = Inr (Finite 0 (- 1074))"
| "fdiv _ _ = Inr NaN"

definition int_truediv :: "int \<Rightarrow> int \<Rightarrow> py_exception + double" where
  "int_truediv a b =
     (if b = 0 then Inl ZeroDivisionError
      else (case round_quotient a b 0 of
              Finite m e \<Rightarrow> Inr (Finite m e)
            | _ \<Rightarrow> Inl OverflowError))"

text \<open>The comparisons \<open>a < b\<close> and \<open>a == b\<close>; every comparison with a NaN is false.\<close>

fun flt :: "double \<Rightarrow> double \<Rightarrow> bool" where
  "flt (Finite m1 e1) (Finite m2 e2) =
     (let E = min e1 e2 in m1 * 2 ^ nat (e1 - E) < m2 * 2 ^ nat (e2 - E))"
| "flt NaN _ = False"
| "flt _ NaN = False"
| "flt PosInf _ = False"
| "flt _ NegInf = False"
| "flt _ _ = True"

fun feq :: "double \<Rightarrow> double \<Rightarrow> bool" where
  "feq (Finite m1 e1) (Finite m2 e2) =
     (let E = min e1 e2 in m1 * 2 ^ nat (e1 - E) = m2 * 2 ^ nat (e2 - E))"
| "feq PosInf PosInf = True"
| "feq NegInf NegInf = True"
| "feq _ _ = False"

text \<open>
  Python's \<open>max(a, b)\<close> and \<open>min(a, b)\<close> keep the first argument unless the second
  is strictly greater, respectively smaller.
\<close>

definition pymax :: "double \<Rightarrow> double \<Rightarrow> double" where
  "pymax a b = (if flt a b then b else a)"

definition pymin :: "double \<Rightarrow> double \<Rightarrow> double" where
  "pymin a b = (if flt b a then b else a)"

text \<open>
  The real number a finite float stands for, and what it means that a float computed
  by one operation is the exact result \<open>v\<close>: the operation neither rounded nor
  overflowed.
\<close>

fun val :: "double \<Rightarrow> real" where
  "val (Finite m e) = real_of_int m * 2 powi e"
| "val _ = 0"

definition exactly :: "double \<Rightarrow> real \<Rightarrow> bool" where
  "exactly d v = (is_finite d \<and> val d = v)"

section \<open>Rectangles\<close>

text \<open>
  The program stores every rectangle as a PyMuPDF \<open>Rect\<close>: four floats, top-left
  \<open>(x0, y0)\<close> and bottom-right \<open>(x1, y1)\<close>. \<open>Rect.width\<close> and \<open>Rect.height\<close>
  are the library's properties \<open>max(0, x1 - x0)\<close> and \<open>max(0, y1 - y0)\<close>; the truth
  value of a \<open>Rect\<close> is \<open>not (max(self) == min(self) == 0)\<close>, false exactly when
  all four coordinates are zero.
\<close>

datatype rect = Rect (x0: double) (y0: double) (x1: double) (y1: double)

definition rect_width :: "rect \<Rightarrow> double" where
  "rect_width r = pymax (D 0) (fsub (x1 r) (x0 r))"

definition rect_height :: "rect \<Rightarrow> double" where
  "rect_height r = pymax (D 0) (fsub (y1 r) (y0 r))"

definition rect_bool :: "rect \<Rightarrow> bool" where
  "rect_bool r =
     (let mx = pymax (pymax (pymax (x0 r) (y0 r)) (x1 r)) (y1 r);
          mn = pymin (pymin (pymin (x0 r) (y0 r)) (x1 r)) (y1 r)
      in \<not> (feq mx mn \<and> feq mn (D 0)))"

section \<open>layout.py\<close>

definition clamp_rect :: "rect \<Rightarrow> rect \<Rightarrow> rect" where
  "clamp_rect r bounds =
     (let dx = pymax (D 0) (fsub (x1 r) (x1 bounds));
          dy = pymax (D 0) (fsub (y1 r) (y1 bounds));
          cx0 = fsub (x0 r) dx;
          cx1 = fsub (x1 r) dx;
          cy0 = fsub (y0 r) dy;
          cy1 = fsub (y1 r) dy;
          (cx0, cx1) = (if flt cx0 (x0 bounds)
                        then (x0 bounds, fadd cx1 (fsub (x0 bounds) cx0)) else (cx0, cx1));
          (cy0, cy1) = (if flt cy0 (y0 bounds)
                        then (y0 bounds, fadd cy1 (fsub (y0 bounds) cy0)) else (cy0, cy1))
      in Rect cx0 cy0 cx1 cy1)"

fun canvas_to_pdf :: "double \<Rightarrow> double \<Rightarrow> rect \<Rightarrow> double \<times> double \<Rightarrow> double \<times> double" where
  "canvas_to_pdf x y page_rect (sx, sy) =
     (fadd (fmul x sx) (x0 page_rect), fadd (fmul y sy) (y0 page_rect))"

fun pdf_rect_to_canvas_rect ::
  "rect \<Rightarrow> rect \<Rightarrow> double \<times> double
     \<Rightarrow> py_exception + (double \<times> double \<times> double \<times> double)" where
  "pdf_rect_to_canvas_rect r page_rect (sx, sy) =
     (case fdiv (fsub (x0 r) (x0 page_rect)) sx of
        Inl e \<Rightarrow> Inl e
      | Inr cx0 \<Rightarrow>
     (case fdiv (fsub (y0 r) (y0 page_rect)) sy of
        Inl e \<Rightarrow> Inl e
      | Inr cy0 \<Rightarrow>
     (case fdiv (fsub (x1 r) (x0 page_rect)) sx of
        Inl e \<Rightarrow> Inl e
      | Inr cx1 \<Rightarrow>
     (case fdiv (fsub (y1 r) (y0 page_rect)) sy of
        Inl e \<Rightarrow> Inl e
      | Inr cy1 \<Rightarrow> Inr (cx0, cy0, cx1, cy1)))))"

text \<open>
  The image size is a pair of Python integers; \<open>image_size[1] / image_size[0]\<close> is
  their true division, the only step of \<open>new_signature_rect\<close> that can raise.
\<close>

fun new_signature_rect ::
  "double \<Rightarrow> double \<Rightarrow> rect \<Rightarrow> double \<times> double \<Rightarrow> int \<times> int \<Rightarrow> double
     \<Rightarrow> py_exception + rect" where
  "new_signature_rect canvas_x canvas_y page_rect page_scale (iw, ih) max_width_points =
     (let width = pymax (D 10) (pymin max_width_points (rect_width page_rect))
      in case (if iw \<noteq> 0 then int_truediv ih iw else Inr (D 1)) of
           Inl e \<Rightarrow> Inl e
         | Inr aspect \<Rightarrow>
             (let height = fmul width aspect;
                  (x_pdf, y_pdf) = canvas_to_pdf canvas_x canvas_y page_rect page_scale
              in Inr (clamp_rect (Rect x_pdf y_pdf (fadd x_pdf width) (fadd y_pdf height))
                        page_rect)))"

text \<open>
  The width rule as the specification words it: a default width derived from the image,
  clamped between the lower bound 10 and the upper bound \<open>min(max_width, page width)\<close>.
  It is used only to compare the specification's wording with \<open>new_signature_rect\<close>.
\<close>

definition spec_signature_width :: "double \<Rightarrow> double \<Rightarrow> double \<Rightarrow> double" where
  "spec_signature_width image_default max_width page_width =
     pymax (D 10) (pymin (pymin max_width page_width) image_default)"

text \<open>
  One axis of \<open>clamp_rect\<close>: the low and the high coordinate it returns for the
  interval \<open>(lo, hi)\<close> and the bounds \<open>(blo, bhi)\<close>. \<open>clamp_rect\<close> computes the
  same on x and on y (lemma \<open>clamp_rect_axes\<close>).
\<close>

definition clamp_lo :: "double \<Rightarrow> double \<Rightarrow> double \<Rightarrow> double \<Rightarrow> double" where
  "clamp_lo lo hi blo bhi =
     (let d = pymax (D 0) (fsub hi bhi); c0 = fsub lo d
      in if flt c0 blo then blo else c0)"

definition clamp_hi :: "double \<Rightarrow> double \<Rightarrow> double \<Rightarrow> double \<Rightarrow> double" where
  "clamp_hi lo hi blo bhi =
     (let d = pymax (D 0) (fsub hi bhi); c0 = fsub lo d; c1 = fsub hi d
      in if flt c0 blo then fadd c1 (fsub blo c0) else c1)"

text \<open>
  The arithmetic of a call is exact when none of its operations rounds or overflows.
  The predicates below say so for the calls the theorems are about, operation by
  operation and along the branch the call takes.
\<close>

definition clamp_axis_exact :: "double \<Rightarrow> double \<Rightarrow> double \<Rightarrow> double \<Rightarrow> bool" where
  "clamp_axis_exact lo hi blo bhi =
     (is_finite lo \<and> is_finite hi \<and> is_finite blo \<and> is_finite bhi
      \<and> (let d = pymax (D 0) (fsub hi bhi); c0 = fsub lo d; c1 = fsub hi d
         in exactly (fsub hi bhi) (val hi - val bhi)
            \<and> exactly c0 (val lo - val d)
            \<and> exactly c1 (val hi - val d)
            \<and> (if flt c0 blo
                then exactly (fsub blo c0) (val blo - val c0)
                     \<and> exactly (fadd c1 (fsub blo c0)) (val c1 + val (fsub blo c0))
                else True)))"

definition clamp_rect_exact :: "rect \<Rightarrow> rect \<Rightarrow> bool" where
  "clamp_rect_exact r bounds =
     (clamp_axis_exact (x0 r) (x1 r) (x0 bounds) (x1 bounds)
      \<and> clamp_axis_exact (y0 r) (y1 r) (y0 bounds) (y1 bounds))"

definition exact_quotient :: "double \<Rightarrow> double \<Rightarrow> bool" where
  "exact_quotient a b =
     (case fdiv a b of Inl e \<Rightarrow> False | Inr q \<Rightarrow> exactly q (val a / val b))"

definition canvas_to_pdf_exact :: "double \<Rightarrow> double \<Rightarrow> rect \<Rightarrow> double \<times> double \<Rightarrow> bool" where
  "canvas_to_pdf_exact x y page_rect page_scale =
     (is_finite x \<and> is_finite y \<and> is_finite (x0 page_rect) \<and> is_finite (y0 page_rect)
      \<and> is_finite (fst page_scale) \<and> is_finite (snd page_scale)
      \<and> exactly (fmul x (fst page_scale)) (val x * val (fst page_scale))
      \<and> exactly (fmul y (snd page_scale)) (val y * val (snd page_scale))
      \<and> exactly (fadd (fmul x (fst page_scale)) (x0 page_rect))
                 (val (fmul x (fst page_scale)) + val (x0 page_rect))
      \<and> exactly (fadd (fmul y (snd page_scale)) (y0 page_rect))
                 (val (fmul y (snd page_scale)) + val (y0 page_rect)))"

definition pdf_rect_to_canvas_rect_exact :: "rect \<Rightarrow> rect \<Rightarrow> double \<times> double \<Rightarrow> bool" where
  "pdf_rect_to_canvas_rect_exact r page_rect page_scale =
     (is_finite (x0 r) \<and> is_finite (y0 r) \<and> is_finite (x1 r) \<and> is_finite (y1 r)
      \<and> exactly (fsub (x0 r) (x0 page_rect)) (val (x0 r) - val (x0 page_rect))
      \<and> exactly (fsub (y0 r) (y0 page_rect)) (val (y0 r) - val (y0 page_rect))
      \<and> exactly (fsub (x1 r) (x0 page_rect)) (val (x1 r) - val (x0 page_rect))
      \<and> exactly (fsub (y1 r) (y0 page_rect)) (val (y1 r) - val (y0 page_rect))
      \<and> exact_quotient (fsub (x0 r) (x0 page_rect)) (fst page_scale)
      \<and> exact_quotient (fsub (y0 r) (y0 page_rect)) (snd page_scale)
      \<and> exact_quotient (fsub (x1 r) (x0 page_rect)) (fst page_scale)
      \<and> exact_quotient (fsub (y1 r) (y0 page_rect)) (snd page_scale))"

text \<open>
  \<open>new_signature_rect\<close> and \<open>move_to\<close> both build the rectangle
  \<open>Rect(x_pdf, y_pdf, x_pdf + width, y_pdf + height)\<close> and clamp it to the page; this
  says that the two sums and the clamp are exact.
\<close>

definition anchored_rect_exact :: "double \<Rightarrow> double \<Rightarrow> double \<Rightarrow> double \<Rightarrow> rect \<Rightarrow> bool" where
  "anchored_rect_exact x_pdf y_pdf width height page_rect =
     (is_finite x_pdf \<and> is_finite y_pdf \<and> is_finite width \<and> is_finite height
      \<and> exactly (fadd x_pdf width) (val x_pdf + val width)
      \<and> exactly (fadd y_pdf height) (val y_pdf + val height)
      \<and> clamp_rect_exact (Rect x_pdf y_pdf (fadd x_pdf width) (fadd y_pdf height))
            page_rect)"

section \<open>controllers.py: DocumentController\<close>

text \<open>
  A document is an object of the PDF library, or a test double of it. The controllers
  and operations use its length, its truth value (Python takes it from \<open>__len__\<close>: a
  document without pages is false), \<open>load_page\<close> and, on a page, \<open>insert_image\<close>.
  A page is modelled by the list of images inserted on it, a document by its pages.
\<close>

record inserted_image =
  img_rect :: rect
  img_filename :: path
  img_keep_proportion :: bool
  img_overlay :: bool

type_synonym page = "inserted_image list"

datatype document = Document (pages: "page list")

definition doc_len :: "document \<Rightarrow> int" where
  "doc_len d = int (length (pages d))"

fun document_bool :: "document option \<Rightarrow> bool" where
  "document_bool None = False"
| "document_bool (Some d) = (doc_len d \<noteq> 0)"

record document_controller =
  open_pdf :: "path \<Rightarrow> py_exception + document"
  doc :: "document option"
  current_file :: "path option"
  page_index :: int

definition DocumentController :: "(path \<Rightarrow> py_exception + document) \<Rightarrow> document_controller" where
  "DocumentController pdf_opener =
     \<lparr>open_pdf = pdf_opener, doc = None, current_file = None, page_index = 0\<rparr>"

definition page_count :: "document_controller \<Rightarrow> int" where
  "page_count s =
     (if document_bool (doc s) then (case doc s of Some d \<Rightarrow> doc_len d | None \<Rightarrow> 0) else 0)"

text \<open>
  \<open>open\<close> calls the opener first; when the opener raises, no attribute has been
  assigned yet. \<open>reload\<close> catches \<open>RuntimeError\<close> and its subclasses only.
\<close>

definition open_doc ::
  "path \<Rightarrow> document_controller \<Rightarrow> (py_exception + document) \<times> document_controller" where
  "open_doc path s =
     (case open_pdf s path of
        Inl e \<Rightarrow> (Inl e, s)
      | Inr d \<Rightarrow> (Inr d, s\<lparr>doc := Some d, current_file := Some path, page_index := 0\<rparr>))"

definition reload ::
  "path \<Rightarrow> document_controller \<Rightarrow> (py_exception + document option) \<times> document_controller" where
  "reload path s =
     (case open_doc path s of
        (Inl e, s') \<Rightarrow> (if is_RuntimeError e then (Inr None, s') else (Inl e, s'))
      | (Inr d, s') \<Rightarrow> (Inr (Some d), s'))"

text \<open>
  \<open>close\<close> also calls \<open>doc.close()\<close> on a true document, which releases the
  library's resources and touches none of the controller's attributes.
\<close>

definition close :: "document_controller \<Rightarrow> document_controller" where
  "close s = s\<lparr>doc := None, current_file := None, page_index := 0\<rparr>"

definition next_page :: "document_controller \<Rightarrow> document_controller" where
  "next_page s =
     (if document_bool (doc s) \<and> page_index s < page_count s - 1
      then s\<lparr>page_index := page_index s + 1\<rparr> else s)"

definition prev_page :: "document_controller \<Rightarrow> document_controller" where
  "prev_page s =
     (if document_bool (doc s) \<and> page_index s > 0
      then s\<lparr>page_index := page_index s - 1\<rparr> else s)"

definition clamp_page_index :: "document_controller \<Rightarrow> document_controller" where
  "clamp_page_index s =
     (if \<not> document_bool (doc s) then s\<lparr>page_index := 0\<rparr>
      else s\<lparr>page_index := min (page_index s) (page_count s - 1)\<rparr>)"

text \<open>
  The page index invariant. The controller treats a document as open when \<open>self.doc\<close>
  is true, the test every one of its methods makes.
\<close>

definition doc_inv :: "document_controller \<Rightarrow> bool" where
  "doc_inv s =
     (if document_bool (doc s) then 0 \<le> page_index s \<and> page_index s < page_count s
      else page_index s = 0)"

section \<open>controllers.py: SignatureController\<close>

record signature_controller =
  max_width_points :: double
  image_path :: "path option"
  sig_rect :: "rect option"
  sig_page_index :: "int option"


text \<open>
  The guard \<open>if not self.rect\<close> of \<open>move_to\<close> and \<open>resize\<close>: it holds for
  \<open>None\<close> and for a rectangle that is false.
\<close>

fun opt_rect_bool :: "rect option \<Rightarrow> bool" where
  "opt_rect_bool None = False"
| "opt_rect_bool (Some r) = rect_bool r"

definition reset :: "signature_controller \<Rightarrow> signature_controller" where
  "reset s = s\<lparr>image_path := None, sig_rect := None, sig_page_index := None\<rparr>"

definition set_image :: "path \<Rightarrow> signature_controller \<Rightarrow> signature_controller" where
  "set_image p s = s\<lparr>image_path := Some p, sig_rect := None, sig_page_index := None\<rparr>"

text \<open>
  When \<open>new_signature_rect\<close> raises, \<open>place_on_page\<close> has assigned nothing yet.
\<close>

definition place_on_page ::
  "double \<Rightarrow> double \<Rightarrow> int \<Rightarrow> rect \<Rightarrow> double \<times> double \<Rightarrow> int \<times> int \<Rightarrow> signature_controller
     \<Rightarrow> (py_exception + rect) \<times> signature_controller" where
  "place_on_page canvas_x canvas_y pidx page_rect page_scale image_size s =
     (case new_signature_rect canvas_x canvas_y page_rect page_scale image_size
             (max_width_points s) of
        Inl e \<Rightarrow> (Inl e, s)
      | Inr r \<Rightarrow> (Inr r, s\<lparr>sig_rect := Some r, sig_page_index := Some pidx\<rparr>))"





text \<open>
  The states of the placement state machine, as the specification names them: no image
  chosen, image chosen without a rectangle, rectangle present.
\<close>

datatype placement_state = Unset | ImageLoaded | Placed

definition spec_state :: "signature_controller \<Rightarrow> placement_state" where
  "spec_state s =
     (case sig_rect s of
        Some r \<Rightarrow> Placed
      | None \<Rightarrow> (case image_path s of Some p \<Rightarrow> ImageLoaded | None \<Rightarrow> Unset))"

section \<open>operations.py\<close>

definition DEFAULT_INSERT_RECT :: rect where
  "DEFAULT_INSERT_RECT = Rect (D 36) (D 36) (D 300) (D 300)"

text \<open>
  \<open>insert_image\<close> reaches the file system through \<open>image_path.exists()\<close> and the
  document through \<open>doc.load_page\<close>; both are parameters here. \<open>load_page\<close>
  answers with the position of the page in the document or with the exception it
  raises, or with \<open>None\<close> when it does not return. \<open>page.insert_image\<close> is modelled
  as the test double has it: it records the call on the page. The handler wraps
  \<open>IndexError\<close> only; any other exception of \<open>load_page\<close> leaves the function as
  it is.
\<close>

definition insert_image ::
  "(document \<Rightarrow> int \<Rightarrow> (py_exception + nat) option) \<Rightarrow> (path \<Rightarrow> bool) \<Rightarrow> document \<Rightarrow> path
     \<Rightarrow> int \<Rightarrow> rect option \<Rightarrow> ((py_exception + rect) \<times> document) option" where
  "insert_image load_page path_exists d image_path_arg pidx rect_arg =
     (if \<not> path_exists image_path_arg
      then Some (Inl (PDFOperationError (ImagePathDoesNotExist image_path_arg)), d)
      else
        (case load_page d pidx of
           None \<Rightarrow> None
         | Some (Inl e) \<Rightarrow>
             (if e = IndexError
              then Some (Inl (PDFOperationError (PageOutOfRange pidx (length (pages d)))), d)
              else Some (Inl e, d))
         | Some (Inr i) \<Rightarrow>
             (let target_rect = (if opt_rect_bool rect_arg
                                 then (case rect_arg of Some r \<Rightarrow> r | None \<Rightarrow> DEFAULT_INSERT_RECT)
                                 else DEFAULT_INSERT_RECT);
                  call = \<lparr>img_rect = target_rect, img_filename = image_path_arg,
                          img_keep_proportion = True, img_overlay = True\<rparr>
              in Some (Inr target_rect, Document ((pages d)[i := (pages d ! i) @ [call]])))))"

text \<open>
  The list-backed document of the test suite: \<open>load_page\<close> indexes a Python list, a
  negative index counts from the end, and an index out of range raises
  \<open>IndexError\<close>.
\<close>

definition list_load_page :: "document \<Rightarrow> int \<Rightarrow> (py_exception + nat) option" where
  "list_load_page d i =
     (if 0 \<le> i \<and> i < doc_len d then Some (Inr (nat i))
      else if i < 0 \<and> - doc_len d \<le> i then Some (Inr (nat (doc_len d + i)))
      else Some (Inl IndexError))"

text \<open>
  The library's own \<open>Document.load_page\<close>: an index at or beyond the page count
  raises \<open>ValueError\<close> ("page not in document"); a negative index is brought into
  range by the loop \<open>while page_id < 0: page_id += page_count\<close>, which does not end on
  a document without pages.
\<close>

partial_function (option) wrap_page_id :: "int \<Rightarrow> int \<Rightarrow> int option" where
  "wrap_page_id np page_id =
     (if page_id < 0 then wrap_page_id np (page_id + np) else Some page_id)"

definition pymupdf_load_page :: "document \<Rightarrow> int \<Rightarrow> (py_exception + nat) option" where
  "pymupdf_load_page d i =
     (if \<not> i < doc_len d then Some (Inl ValueError)
      else (case wrap_page_id (doc_len d) i of
              None \<Rightarrow> None
            | Some j \<Rightarrow> Some (Inr (nat j))))"

section \<open>Facts about floats\<close>

lemma scale_val:
  assumes "E \<le> e"
  shows "real_of_int (m * 2 ^ nat (e - E)) * 2 powi E = real_of_int m * 2 powi e"
proof -
  have "(2::real) powi e = 2 powi (e - E) * 2 powi E"
    by (simp add: power_int_add [symmetric])
  moreover have "(2::real) powi (e - E) = 2 ^ nat (e - E)"
    using assms by (simp add: power_int_def)
  ultimately show ?thesis by simp
qed

lemma flt_Finite_val:
  "flt (Finite m1 e1) (Finite m2 e2) = (val (Finite m1 e1) < val (Finite m2 e2))"
proof -
  let ?E = "min e1 e2"
  have p: "(0::real) < 2 powi ?E" by simp
  have "(m1 * 2 ^ nat (e1 - ?E) < m2 * 2 ^ nat (e2 - ?E))
        = (real_of_int (m1 * 2 ^ nat (e1 - ?E)) * 2 powi ?E
           < real_of_int (m2 * 2 ^ nat (e2 - ?E)) * 2 powi ?E)"
    using p by (simp only: mult_less_cancel_right_pos of_int_less_iff)
  also have "\<dots> = (real_of_int m1 * 2 powi e1 < real_of_int m2 * 2 powi e2)"
    by (simp only: scale_val [of ?E e1 m1] scale_val [of ?E e2 m2] min.cobounded1 min.cobounded2)
  finally show ?thesis by (simp add: Let_def)
qed

lemma flt_val: "is_finite a \<Longrightarrow> is_finite b \<Longrightarrow> flt a b = (val a < val b)"
  by (cases a; cases b) (simp_all only: flt_Finite_val is_finite.simps)

lemma feq_Finite_val:
  "feq (Finite m1 e1) (Finite m2 e2) = (val (Finite m1 e1) = val (Finite m2 e2))"
proof -
  let ?E = "min e1 e2"
  have p: "(2::real) powi ?E \<noteq> 0" by simp
  have "(m1 * 2 ^ nat (e1 - ?E) = m2 * 2 ^ nat (e2 - ?E))
        = (real_of_int (m1 * 2 ^ nat (e1 - ?E)) = real_of_int (m2 * 2 ^ nat (e2 - ?E)))"
    by (simp only: of_int_eq_iff)
  also have "\<dots> = (real_of_int (m1 * 2 ^ nat (e1 - ?E)) * 2 powi ?E
           = real_of_int (m2 * 2 ^ nat (e2 - ?E)) * 2 powi ?E)"
    using p by (simp only: mult_cancel_right) simp
  also have "\<dots> = (real_of_int m1 * 2 powi e1 = real_of_int m2 * 2 powi e2)"
    by (simp only: scale_val [of ?E e1 m1] scale_val [of ?E e2 m2] min.cobounded1 min.cobounded2)
  finally show ?thesis by (simp add: Let_def)
qed

lemma feq_val: "is_finite a \<Longrightarrow> is_finite b \<Longrightarrow> feq a b = (val a = val b)"
  by (cases a; cases b) (simp_all only: feq_Finite_val is_finite.simps)

lemma D_zero: "D 0 = Finite 0 (- 1074)"
  by (simp add: D_def round_to_double_def)

lemma val_D_zero: "val (D 0) = 0" and finite_D_zero: "is_finite (D 0)"
  by (simp_all add: D_zero)

lemma val_fneg: "val (fneg a) = - val a"
  by (cases a) simp_all

lemma finite_fneg: "is_finite (fneg a) = is_finite a"
  by (cases a) simp_all

lemma pymax_val:
  "is_finite a \<Longrightarrow> is_finite b \<Longrightarrow> is_finite (pymax a b) \<and> val (pymax a b) = max (val a) (val b)"
  by (simp add: pymax_def flt_val)


lemma val_zero_iff: "is_finite a \<Longrightarrow> (val a = 0) = is_zero a"
  by (cases a) simp_all


lemma round_to_double_shift:
  "round_to_double (M * 2 ^ k) (E - int k) = round_to_double M E"
proof (cases "M = 0")
  case True
  then show ?thesis by (simp add: round_to_double_def)
next
  case False
  then have pos: "0 < \<bar>M\<bar>" by simp
  have bl: "bitlen \<bar>M * 2 ^ k\<bar> = bitlen \<bar>M\<bar> + int k"
    using bitlen_pow2 [OF pos, of k] by (simp add: abs_mult)
  define t where "t = max (bitlen \<bar>M\<bar> + E - 53) (- 1074)"
  have t': "max (bitlen \<bar>M * 2 ^ k\<bar> + (E - int k) - 53) (- 1074) = t"
    by (simp add: bl t_def)
  have nz: "M * 2 ^ k \<noteq> 0" using False by simp
  consider (a) "t \<le> E - int k" | (b) "E - int k < t" "t \<le> E" | (c) "E < t"
    by linarith
  then show ?thesis
  proof cases
    case a
    then have tE: "t \<le> E" by simp
    have "k + nat (E - int k - t) = nat (E - t)" using a by simp
    then have "(2::int) ^ k * 2 ^ nat (E - int k - t) = 2 ^ nat (E - t)"
      by (simp only: power_add [symmetric])
    then have eq: "M * 2 ^ k * 2 ^ nat (E - int k - t) = M * 2 ^ nat (E - t)"
      by (simp only: mult.assoc)
    from a tE nz False show ?thesis
      by (simp add: round_to_double_def t' Let_def t_def [symmetric]) (simp only: eq)
  next
    case b
    define s where "s = nat (t - (E - int k))"
    have s: "0 < s" "s \<le> k" "k - s = nat (E - t)" using b by (simp_all add: s_def)
    have split: "(2::int) ^ k = 2 ^ (k - s) * 2 ^ s"
      using s by (simp add: power_add [symmetric])
    have q: "(M * 2 ^ k) div 2 ^ s = M * 2 ^ (k - s)"
      by (simp add: split mult.assoc [symmetric])
    have r: "(M * 2 ^ k) mod 2 ^ s = 0"
      by (simp add: split mult.assoc [symmetric])
    have h: "(0::int) < 2 ^ (s - 1)" by simp
    from b have nb: "\<not> t \<le> E - int k" by simp
    show ?thesis
      using b nz False h nb
      by (simp add: round_to_double_def t' Let_def t_def [symmetric] s_def [symmetric] q r s)
  next
    case c
    define s where "s = nat (t - E)"
    have s: "0 < s" using c by (simp add: s_def)
    have s': "nat (t - (E - int k)) = s + k" using c by (simp add: s_def)
    have q: "(M * 2 ^ k) div 2 ^ (s + k) = M div 2 ^ s"
      by (simp add: power_add)
    have r: "(M * 2 ^ k) mod 2 ^ (s + k) = M mod 2 ^ s * 2 ^ k"
      by (simp add: power_add)
    have h: "(2::int) ^ (s + k - Suc 0) = 2 ^ (s - Suc 0) * 2 ^ k"
      using s by (simp add: power_add [symmetric])
    have c1: "((2::int) ^ (s - Suc 0) * 2 ^ k < M mod 2 ^ s * 2 ^ k)
                = (2 ^ (s - Suc 0) < M mod 2 ^ s)"
      by simp
    have c2: "(M mod 2 ^ s * 2 ^ k = (2::int) ^ (s - Suc 0) * 2 ^ k)
                = (M mod 2 ^ s = 2 ^ (s - Suc 0))"
      by simp
    from c have n1: "\<not> t \<le> E - int k" and n2: "\<not> t \<le> E" by simp_all
    show ?thesis
      using nz False n1 n2
      by (simp add: round_to_double_def t' Let_def t_def [symmetric] s' s_def [symmetric]
            q r h c1 c2)
  qed
qed

lemma round_to_double_cong_le:
  assumes "E' \<le> E"
    and "real_of_int M * 2 powi E = real_of_int M' * 2 powi E'"
  shows "round_to_double M E = round_to_double M' E'"
proof -
  define k where "k = nat (E - E')"
  have "real_of_int (M * 2 ^ k) * 2 powi E' = real_of_int M * 2 powi E"
    unfolding k_def using assms(1) by (rule scale_val)
  with assms(2) have "real_of_int (M * 2 ^ k) * 2 powi E' = real_of_int M' * 2 powi E'"
    by simp
  then have "real_of_int (M * 2 ^ k) = real_of_int M'"
    by simp
  then have M': "M' = M * 2 ^ k" by linarith
  have E': "E' = E - int k" using assms(1) by (simp add: k_def)
  show ?thesis
    unfolding M' E' by (rule round_to_double_shift [symmetric])
qed

lemma round_to_double_cong:
  assumes "real_of_int M * 2 powi E = real_of_int M' * 2 powi E'"
  shows "round_to_double M E = round_to_double M' E'"
proof (cases "E' \<le> E")
  case True
  then show ?thesis using assms by (rule round_to_double_cong_le)
next
  case False
  then have "E \<le> E'" by simp
  then have "round_to_double M' E' = round_to_double M E"
    using assms [symmetric] by (rule round_to_double_cong_le)
  then show ?thesis by simp
qed

lemma fadd_Finite_round:
  "\<exists>M E. fadd (Finite m1 e1) (Finite m2 e2) = round_to_double M E
         \<and> real_of_int M * 2 powi E = val (Finite m1 e1) + val (Finite m2 e2)"
proof -
  let ?E = "min e1 e2"
  let ?M = "m1 * 2 ^ nat (e1 - ?E) + m2 * 2 ^ nat (e2 - ?E)"
  have "real_of_int ?M * 2 powi ?E
          = real_of_int (m1 * 2 ^ nat (e1 - ?E)) * 2 powi ?E
            + real_of_int (m2 * 2 ^ nat (e2 - ?E)) * 2 powi ?E"
    by (simp only: of_int_add distrib_right)
  also have "\<dots> = real_of_int m1 * 2 powi e1 + real_of_int m2 * 2 powi e2"
    by (simp only: scale_val [of ?E e1 m1] scale_val [of ?E e2 m2] min.cobounded1 min.cobounded2)
  finally have "real_of_int ?M * 2 powi ?E = val (Finite m1 e1) + val (Finite m2 e2)"
    by simp
  moreover have "fadd (Finite m1 e1) (Finite m2 e2) = round_to_double ?M ?E"
    by (simp add: Let_def)
  ultimately show ?thesis by blast
qed

lemma fadd_cong:
  assumes "is_finite a" "is_finite b" "is_finite c" "is_finite d"
    and "val a + val b = val c + val d"
  shows "fadd a b = fadd c d"
proof -
  from assms(1-4) obtain m1 e1 m2 e2 m3 e3 m4 e4
    where ab: "a = Finite m1 e1" "b = Finite m2 e2"
      and cd: "c = Finite m3 e3" "d = Finite m4 e4"
    by (cases a; cases b; cases c; cases d) simp_all
  obtain M E where 1: "fadd a b = round_to_double M E"
      "real_of_int M * 2 powi E = val a + val b"
    using fadd_Finite_round [of m1 e1 m2 e2] unfolding ab by blast
  obtain M' E' where 2: "fadd c d = round_to_double M' E'"
      "real_of_int M' * 2 powi E' = val c + val d"
    using fadd_Finite_round [of m3 e3 m4 e4] unfolding cd by blast
  from 1(2) 2(2) assms(5) have "real_of_int M * 2 powi E = real_of_int M' * 2 powi E'"
    by simp
  then show ?thesis
    unfolding 1(1) 2(1) by (rule round_to_double_cong)
qed

lemma fsub_cong:
  assumes "is_finite a" "is_finite b" "is_finite c" "is_finite d"
    and "val a - val b = val c - val d"
  shows "fsub a b = fsub c d"
  unfolding fsub_def
  using assms by (intro fadd_cong) (simp_all add: finite_fneg val_fneg)

section \<open>Single float operations\<close>

text \<open>
  The float operations that the examples below perform, each evaluated on its own.
\<close>

lemma eval_1: "D 0 = Finite 0 (- 1074)"
  by code_simp

lemma eval_2: "fsub (Finite 4925812092436480 (- 45)) (Finite 7036874417766400 (- 46)) = Finite 5629499534213120 (- 47)"
  by code_simp

lemma eval_3: "flt (Finite 0 (- 1074)) (Finite 5629499534213120 (- 47)) = True"
  by code_simp

lemma eval_4: "fsub (Finite 5629499534213120 (- 46)) (Finite 5629499534213120 (- 47)) = Finite 5629499534213120 (- 47)"
  by code_simp

lemma eval_5: "fsub (Finite 4925812092436480 (- 45)) (Finite 5629499534213120 (- 47)) = Finite 7036874417766400 (- 46)"
  by code_simp

lemma eval_6: "flt (Finite 5629499534213120 (- 47)) (Finite 0 (- 1074)) = False"
  by code_simp

lemma eval_7: "fsub (Finite 7036874417766400 (- 46)) (Finite 5629499534213120 (- 47)) = Finite 8444249301319680 (- 47)"
  by code_simp

lemma eval_8: "flt (Finite 0 (- 1074)) (Finite 8444249301319680 (- 47)) = True"
  by code_simp

lemma eval_9: "fsub (Finite 4925812092436480 (- 45)) (Finite 5629499534213120 (- 46)) = Finite 8444249301319680 (- 47)"
  by code_simp

lemma eval_10: "fsub (Finite 7036874417766400 (- 48)) (Finite 5629499534213120 (- 49)) = Finite 8444249301319680 (- 49)"
  by code_simp

lemma eval_11: "flt (Finite 0 (- 1074)) (Finite 8444249301319680 (- 49)) = True"
  by code_simp

lemma eval_12: "fsub (Finite 5629499534213120 (- 50)) (Finite 8444249301319680 (- 49)) = Finite (- 5629499534213120) (- 49)"
  by code_simp

lemma eval_13: "fsub (Finite 7036874417766400 (- 48)) (Finite 8444249301319680 (- 49)) = Finite 5629499534213120 (- 49)"
  by code_simp

lemma eval_14: "flt (Finite (- 5629499534213120) (- 49)) (Finite 0 (- 1074)) = True"
  by code_simp

lemma eval_15: "fsub (Finite 0 (- 1074)) (Finite (- 5629499534213120) (- 49)) = Finite 5629499534213120 (- 49)"
  by code_simp

lemma eval_16: "fadd (Finite 5629499534213120 (- 49)) (Finite 5629499534213120 (- 49)) = Finite 5629499534213120 (- 48)"
  by code_simp

lemma eval_17: "fsub (Finite 5404319552844595 (- 53)) (Finite 7205759403792794 (- 55)) = Finite 7205759403792793 (- 54)"
  by code_simp

lemma eval_18: "flt (Finite 0 (- 1074)) (Finite 7205759403792793 (- 54)) = True"
  by code_simp

lemma eval_19: "fsub (Finite 7205759403792794 (- 56)) (Finite 7205759403792793 (- 54)) = Finite (- 5404319552844594) (- 54)"
  by code_simp

lemma eval_20: "fsub (Finite 5404319552844595 (- 53)) (Finite 7205759403792793 (- 54)) = Finite 7205759403792794 (- 55)"
  by code_simp

lemma eval_21: "flt (Finite (- 5404319552844594) (- 54)) (Finite 0 (- 1074)) = True"
  by code_simp

lemma eval_22: "fsub (Finite 0 (- 1074)) (Finite (- 5404319552844594) (- 54)) = Finite 5404319552844594 (- 54)"
  by code_simp

lemma eval_23: "fadd (Finite 7205759403792794 (- 55)) (Finite 5404319552844594 (- 54)) = Finite 9007199254740991 (- 54)"
  by code_simp

lemma eval_24: "fsub (Finite 4503599627370496 (- 52)) (Finite 4503599627370496 (- 52)) = Finite 0 (- 1074)"
  by code_simp

lemma eval_25: "flt (Finite 0 (- 1074)) (Finite 0 (- 1074)) = False"
  by code_simp

lemma eval_26: "fsub (Finite 0 (- 1074)) (Finite 0 (- 1074)) = Finite 0 (- 1074)"
  by code_simp

lemma eval_27: "fsub (Finite 4503599627370496 (- 52)) (Finite 0 (- 1074)) = Finite 4503599627370496 (- 52)"
  by code_simp

lemma eval_28: "fsub (Finite 9007199254740991 (- 54)) (Finite 0 (- 1074)) = Finite 9007199254740991 (- 54)"
  by code_simp

lemma eval_29: "flt (Finite 0 (- 1074)) (Finite 9007199254740991 (- 54)) = True"
  by code_simp

lemma eval_30: "fsub (Finite 5404319552844595 (- 53)) (Finite 7205759403792794 (- 56)) = Finite 4503599627370496 (- 53)"
  by code_simp

lemma eval_31: "flt (Finite 0 (- 1074)) (Finite 4503599627370496 (- 53)) = True"
  by code_simp

lemma eval_32: "flt (Finite 9007199254740991 (- 54)) (Finite 4503599627370496 (- 53)) = True"
  by code_simp

lemma eval_33: "fsub (Finite 5404319552844595 (- 54)) (Finite 0 (- 1074)) = Finite 5404319552844595 (- 54)"
  by code_simp

lemma eval_34: "flt (Finite 0 (- 1074)) (Finite 5404319552844595 (- 54)) = True"
  by code_simp

lemma eval_35: "fsub (Finite 7205759403792794 (- 53)) (Finite 5404319552844595 (- 53)) = Finite 7205759403792796 (- 55)"
  by code_simp

lemma eval_36: "flt (Finite 0 (- 1074)) (Finite 7205759403792796 (- 55)) = True"
  by code_simp

lemma eval_37: "flt (Finite 5404319552844595 (- 54)) (Finite 7205759403792796 (- 55)) = False"
  by code_simp

lemma eval_38: "flt (Finite 0 (- 1074)) (Finite 4503599627370496 (- 52)) = True"
  by code_simp

lemma eval_39: "flt (Finite 4503599627370496 (- 52)) (Finite 4503599627370496 (- 52)) = False"
  by code_simp

lemma eval_40: "fsub (Finite 7205759403792794 (- 53)) (Finite 5404319552844595 (- 54)) = Finite 4503599627370496 (- 53)"
  by code_simp

lemma eval_41: "fsub (Finite 5404319552844595 (- 53)) (Finite 4503599627370496 (- 53)) = Finite 7205759403792792 (- 56)"
  by code_simp

lemma eval_42: "fsub (Finite 7205759403792794 (- 53)) (Finite 4503599627370496 (- 53)) = Finite 5404319552844596 (- 54)"
  by code_simp

lemma eval_43: "flt (Finite 7205759403792792 (- 56)) (Finite 0 (- 1074)) = False"
  by code_simp

lemma eval_44: "flt (Finite 5404319552844595 (- 54)) (Finite 5404319552844596 (- 54)) = True"
  by code_simp

lemma eval_45: "fsub (Finite 5629499534213120 (- 48)) (Finite 5629499534213120 (- 49)) = Finite 5629499534213120 (- 49)"
  by code_simp

lemma eval_46: "flt (Finite 0 (- 1074)) (Finite 5629499534213120 (- 49)) = True"
  by code_simp

lemma eval_47: "fsub (Finite 0 (- 1074)) (Finite 5629499534213120 (- 49)) = Finite (- 5629499534213120) (- 49)"
  by code_simp

lemma eval_48: "fsub (Finite 8099442454849126 (- 44)) (Finite 7075577227064115 (- 45)) = Finite 4561653841317068 (- 44)"
  by code_simp

lemma eval_49: "flt (Finite 0 (- 1074)) (Finite 4561653841317068 (- 44)) = True"
  by code_simp

lemma eval_50: "fsub (Finite 6023564501608038 (- 44)) (Finite 4561653841317068 (- 44)) = Finite 5847642641163880 (- 46)"
  by code_simp

lemma eval_51: "fsub (Finite 8099442454849126 (- 44)) (Finite 4561653841317068 (- 44)) = Finite 7075577227064116 (- 45)"
  by code_simp

lemma eval_52: "flt (Finite 5847642641163880 (- 46)) (Finite 0 (- 1074)) = False"
  by code_simp

lemma eval_53: "fsub (Finite 7128353785197363 (- 43)) (Finite 5475567906324480 (- 43)) = Finite 6611143515491532 (- 45)"
  by code_simp

lemma eval_54: "flt (Finite 0 (- 1074)) (Finite 6611143515491532 (- 45)) = True"
  by code_simp

lemma eval_55: "fsub (Finite 5274137376115917 (- 44)) (Finite 6611143515491532 (- 45)) = Finite 7874262473480604 (- 46)"
  by code_simp

lemma eval_56: "fsub (Finite 7128353785197363 (- 43)) (Finite 6611143515491532 (- 45)) = Finite 5475567906324480 (- 43)"
  by code_simp

lemma eval_57: "flt (Finite 7874262473480604 (- 46)) (Finite 0 (- 1074)) = False"
  by code_simp

lemma eval_58: "fsub (Finite 7075577227064116 (- 45)) (Finite 7075577227064115 (- 45)) = Finite 4503599627370496 (- 97)"
  by code_simp

lemma eval_59: "flt (Finite 0 (- 1074)) (Finite 4503599627370496 (- 97)) = True"
  by code_simp

lemma eval_60: "fsub (Finite 5847642641163880 (- 46)) (Finite 4503599627370496 (- 97)) = Finite 5847642641163878 (- 46)"
  by code_simp

lemma eval_61: "fsub (Finite 7075577227064116 (- 45)) (Finite 4503599627370496 (- 97)) = Finite 7075577227064115 (- 45)"
  by code_simp

lemma eval_62: "flt (Finite 5847642641163878 (- 46)) (Finite 0 (- 1074)) = False"
  by code_simp

lemma eval_63: "fsub (Finite 5475567906324480 (- 43)) (Finite 5475567906324480 (- 43)) = Finite 0 (- 1074)"
  by code_simp

lemma eval_64: "fsub (Finite 7874262473480604 (- 46)) (Finite 0 (- 1074)) = Finite 7874262473480604 (- 46)"
  by code_simp

lemma eval_65: "fsub (Finite 5475567906324480 (- 43)) (Finite 0 (- 1074)) = Finite 5475567906324480 (- 43)"
  by code_simp

lemma eval_66: "flt (Finite 5847642641163878 (- 46)) (Finite 5847642641163880 (- 46)) = True"
  by code_simp

lemma eval_67: "fmul (Finite 5629499534213120 (- 49)) (Finite 4503599627370496 (- 51)) = Finite 5629499534213120 (- 48)"
  by code_simp

lemma eval_68: "fadd (Finite 5629499534213120 (- 48)) (Finite 7881299347898368 (- 50)) = Finite 7599824371187712 (- 48)"
  by code_simp

lemma eval_69: "fmul (Finite 5629499534213120 (- 50)) (Finite 6755399441055744 (- 51)) = Finite 8444249301319680 (- 49)"
  by code_simp

lemma eval_70: "fadd (Finite 8444249301319680 (- 49)) (Finite 5066549580791808 (- 49)) = Finite 6755399441055744 (- 48)"
  by code_simp

lemma eval_71: "fmul (Finite 5629499534213120 (- 48)) (Finite 4503599627370496 (- 51)) = Finite 5629499534213120 (- 47)"
  by code_simp

lemma eval_72: "fadd (Finite 5629499534213120 (- 47)) (Finite 7881299347898368 (- 50)) = Finite 6614661952700416 (- 47)"
  by code_simp

lemma eval_73: "fmul (Finite 5629499534213120 (- 49)) (Finite 6755399441055744 (- 51)) = Finite 8444249301319680 (- 48)"
  by code_simp

lemma eval_74: "fadd (Finite 8444249301319680 (- 48)) (Finite 5066549580791808 (- 49)) = Finite 5488762045857792 (- 47)"
  by code_simp

lemma eval_75: "fsub (Finite 7599824371187712 (- 48)) (Finite 7881299347898368 (- 50)) = Finite 5629499534213120 (- 48)"
  by code_simp

lemma eval_76: "fdiv (Finite 5629499534213120 (- 48)) (Finite 4503599627370496 (- 51)) = Inr (Finite 5629499534213120 (- 49))"
  by code_simp

lemma eval_77: "fsub (Finite 6755399441055744 (- 48)) (Finite 5066549580791808 (- 49)) = Finite 8444249301319680 (- 49)"
  by code_simp

lemma eval_78: "fdiv (Finite 8444249301319680 (- 49)) (Finite 6755399441055744 (- 51)) = Inr (Finite 5629499534213120 (- 50))"
  by code_simp

lemma eval_79: "fsub (Finite 6614661952700416 (- 47)) (Finite 7881299347898368 (- 50)) = Finite 5629499534213120 (- 47)"
  by code_simp

lemma eval_80: "fdiv (Finite 5629499534213120 (- 47)) (Finite 4503599627370496 (- 51)) = Inr (Finite 5629499534213120 (- 48))"
  by code_simp

lemma eval_81: "fsub (Finite 5488762045857792 (- 47)) (Finite 5066549580791808 (- 49)) = Finite 8444249301319680 (- 48)"
  by code_simp

lemma eval_82: "fdiv (Finite 8444249301319680 (- 48)) (Finite 6755399441055744 (- 51)) = Inr (Finite 5629499534213120 (- 49))"
  by code_simp

lemma eval_83: "fmul (Finite 4503599627370496 (- 52)) (Finite 4503599627370496 (- 52)) = Finite 4503599627370496 (- 52)"
  by code_simp

lemma eval_84: "fadd (Finite 4503599627370496 (- 52)) (Finite 6250000000000000 4) = Finite 6250000000000000 4"
  by code_simp

lemma eval_85: "fmul (Finite 4503599627370496 (- 51)) (Finite 4503599627370496 (- 52)) = Finite 4503599627370496 (- 51)"
  by code_simp

lemma eval_86: "fadd (Finite 4503599627370496 (- 51)) (Finite 6250000000000000 4) = Finite 6250000000000000 4"
  by code_simp

lemma eval_87: "fmul (Finite 6755399441055744 (- 51)) (Finite 4503599627370496 (- 52)) = Finite 6755399441055744 (- 51)"
  by code_simp

lemma eval_88: "fadd (Finite 6755399441055744 (- 51)) (Finite 6250000000000000 4) = Finite 6250000000000000 4"
  by code_simp

lemma eval_89: "fmul (Finite 4503599627370496 (- 50)) (Finite 4503599627370496 (- 52)) = Finite 4503599627370496 (- 50)"
  by code_simp

lemma eval_90: "fadd (Finite 4503599627370496 (- 50)) (Finite 6250000000000000 4) = Finite 6250000000000000 4"
  by code_simp

lemma eval_91: "fsub (Finite 6250000000000000 4) (Finite 6250000000000000 4) = Finite 0 (- 1074)"
  by code_simp

lemma eval_92: "fdiv (Finite 0 (- 1074)) (Finite 4503599627370496 (- 52)) = Inr (Finite 0 (- 1074))"
  by code_simp

lemma eval_93: "fmul (Finite 7205759403792794 (- 54)) (Finite 1 (- 1074)) = Finite 0 (- 1074)"
  by code_simp

lemma eval_94: "fadd (Finite 0 (- 1074)) (Finite 0 (- 1074)) = Finite 0 (- 1074)"
  by code_simp

lemma eval_95: "fmul (Finite 8106479329266893 (- 53)) (Finite 1 (- 1074)) = Finite 1 (- 1074)"
  by code_simp

lemma eval_96: "fadd (Finite 1 (- 1074)) (Finite 0 (- 1074)) = Finite 1 (- 1074)"
  by code_simp

lemma eval_97: "fdiv (Finite 0 (- 1074)) (Finite 1 (- 1074)) = Inr (Finite 0 (- 1074))"
  by code_simp

lemma eval_98: "fsub (Finite 1 (- 1074)) (Finite 0 (- 1074)) = Finite 1 (- 1074)"
  by code_simp

lemma eval_99: "fdiv (Finite 1 (- 1074)) (Finite 1 (- 1074)) = Inr (Finite 4503599627370496 (- 52))"
  by code_simp

lemma eval_100: "D 10 = Finite 5629499534213120 (- 49)"
  by code_simp

lemma eval_101: "fsub (Finite 5277655813324800 (- 44)) (Finite 0 (- 1074)) = Finite 5277655813324800 (- 44)"
  by code_simp

lemma eval_102: "flt (Finite 0 (- 1074)) (Finite 5277655813324800 (- 44)) = True"
  by code_simp

lemma eval_103: "flt (Finite 5277655813324800 (- 44)) (Finite 5629499534213120 (- 46)) = False"
  by code_simp

lemma eval_104: "flt (Finite 5629499534213120 (- 49)) (Finite 5629499534213120 (- 46)) = True"
  by code_simp

lemma eval_105: "int_truediv 50 100 = Inr (Finite 4503599627370496 (- 53))"
  by code_simp

lemma eval_106: "fmul (Finite 5629499534213120 (- 46)) (Finite 4503599627370496 (- 53)) = Finite 5629499534213120 (- 47)"
  by code_simp

lemma eval_107: "fmul (Finite 5101733952880640 (- 44)) (Finite 4503599627370496 (- 52)) = Finite 5101733952880640 (- 44)"
  by code_simp

lemma eval_108: "fadd (Finite 5101733952880640 (- 44)) (Finite 0 (- 1074)) = Finite 5101733952880640 (- 44)"
  by code_simp

lemma eval_109: "fmul (Finite 5189694883102720 (- 44)) (Finite 4503599627370496 (- 52)) = Finite 5189694883102720 (- 44)"
  by code_simp

lemma eval_110: "fadd (Finite 5189694883102720 (- 44)) (Finite 0 (- 1074)) = Finite 5189694883102720 (- 44)"
  by code_simp

lemma eval_111: "fadd (Finite 5101733952880640 (- 44)) (Finite 5629499534213120 (- 46)) = Finite 6509108836433920 (- 44)"
  by code_simp

lemma eval_112: "fadd (Finite 5189694883102720 (- 44)) (Finite 5629499534213120 (- 47)) = Finite 5893382324879360 (- 44)"
  by code_simp

lemma eval_113: "fsub (Finite 6509108836433920 (- 44)) (Finite 5277655813324800 (- 44)) = Finite 4925812092436480 (- 46)"
  by code_simp

lemma eval_114: "flt (Finite 0 (- 1074)) (Finite 4925812092436480 (- 46)) = True"
  by code_simp

lemma eval_115: "fsub (Finite 5101733952880640 (- 44)) (Finite 4925812092436480 (- 46)) = Finite 7740561859543040 (- 45)"
  by code_simp

lemma eval_116: "fsub (Finite 6509108836433920 (- 44)) (Finite 4925812092436480 (- 46)) = Finite 5277655813324800 (- 44)"
  by code_simp

lemma eval_117: "flt (Finite 7740561859543040 (- 45)) (Finite 0 (- 1074)) = False"
  by code_simp

lemma eval_118: "fsub (Finite 5893382324879360 (- 44)) (Finite 5277655813324800 (- 44)) = Finite 4925812092436480 (- 47)"
  by code_simp

lemma eval_119: "flt (Finite 0 (- 1074)) (Finite 4925812092436480 (- 47)) = True"
  by code_simp

lemma eval_120: "fsub (Finite 5189694883102720 (- 44)) (Finite 4925812092436480 (- 47)) = Finite 4573968371548160 (- 44)"
  by code_simp

lemma eval_121: "fsub (Finite 5893382324879360 (- 44)) (Finite 4925812092436480 (- 47)) = Finite 5277655813324800 (- 44)"
  by code_simp

lemma eval_122: "flt (Finite 4573968371548160 (- 44)) (Finite 0 (- 1074)) = False"
  by code_simp

lemma eval_123: "fsub (Finite 5277655813324800 (- 44)) (Finite 7740561859543040 (- 45)) = Finite 5629499534213120 (- 46)"
  by code_simp

lemma eval_124: "flt (Finite 0 (- 1074)) (Finite 5629499534213120 (- 46)) = True"
  by code_simp

lemma eval_125: "fsub (Finite 5277655813324800 (- 44)) (Finite 4573968371548160 (- 44)) = Finite 5629499534213120 (- 47)"
  by code_simp

lemma eval_126: "int_truediv 10 20 = Inr (Finite 4503599627370496 (- 53))"
  by code_simp

lemma eval_127: "fmul (Finite 0 (- 1074)) (Finite 4503599627370496 (- 52)) = Finite 0 (- 1074)"
  by code_simp

lemma eval_128: "fadd (Finite 0 (- 1074)) (Finite 5629499534213120 (- 46)) = Finite 5629499534213120 (- 46)"
  by code_simp

lemma eval_129: "fadd (Finite 0 (- 1074)) (Finite 5629499534213120 (- 47)) = Finite 5629499534213120 (- 47)"
  by code_simp

lemma eval_130: "fsub (Finite 5629499534213120 (- 46)) (Finite 5277655813324800 (- 44)) = Finite (- 7740561859543040) (- 45)"
  by code_simp

lemma eval_131: "flt (Finite 0 (- 1074)) (Finite (- 7740561859543040) (- 45)) = False"
  by code_simp

lemma eval_132: "fsub (Finite 5629499534213120 (- 46)) (Finite 0 (- 1074)) = Finite 5629499534213120 (- 46)"
  by code_simp

lemma eval_133: "fsub (Finite 5629499534213120 (- 47)) (Finite 5277655813324800 (- 44)) = Finite (- 4573968371548160) (- 44)"
  by code_simp

lemma eval_134: "flt (Finite 0 (- 1074)) (Finite (- 4573968371548160) (- 44)) = False"
  by code_simp

lemma eval_135: "fsub (Finite 5629499534213120 (- 47)) (Finite 0 (- 1074)) = Finite 5629499534213120 (- 47)"
  by code_simp

lemma eval_136: "flt (Finite 5629499534213120 (- 48)) (Finite 5629499534213120 (- 46)) = True"
  by code_simp

lemma eval_137: "flt (Finite 5629499534213120 (- 49)) (Finite 5629499534213120 (- 48)) = True"
  by code_simp

lemma eval_138: "dec 612 700 = Finite 7874865634144982 (- 53)"
  by code_simp

lemma eval_139: "dec 792 906 = Finite 7873843057124576 (- 53)"
  by code_simp

lemma eval_140: "fsub (Finite 5383208929591296 (- 43)) (Finite 0 (- 1074)) = Finite 5383208929591296 (- 43)"
  by code_simp

lemma eval_141: "flt (Finite 0 (- 1074)) (Finite 5383208929591296 (- 43)) = True"
  by code_simp

lemma eval_142: "flt (Finite 5383208929591296 (- 43)) (Finite 5629499534213120 (- 46)) = False"
  by code_simp

lemma eval_143: "fmul (Finite 0 (- 1074)) (Finite 7874865634144982 (- 53)) = Finite 0 (- 1074)"
  by code_simp

lemma eval_144: "fmul (Finite 4802666790125568 (- 44)) (Finite 7873843057124576 (- 53)) = Finite 8396715447636755 (- 45)"
  by code_simp

lemma eval_145: "fadd (Finite 8396715447636755 (- 45)) (Finite 0 (- 1074)) = Finite 8396715447636755 (- 45)"
  by code_simp

lemma eval_146: "fadd (Finite 8396715447636755 (- 45)) (Finite 5629499534213120 (- 47)) = Finite 4902045165595018 (- 44)"
  by code_simp

lemma eval_147: "fsub (Finite 5629499534213120 (- 46)) (Finite 5383208929591296 (- 43)) = Finite (- 4679521487814656) (- 43)"
  by code_simp

lemma eval_148: "flt (Finite 0 (- 1074)) (Finite (- 4679521487814656) (- 43)) = False"
  by code_simp

lemma eval_149: "fsub (Finite 4902045165595018 (- 44)) (Finite 6966505673588736 (- 43)) = Finite (- 4515483090791227) (- 43)"
  by code_simp

lemma eval_150: "flt (Finite 0 (- 1074)) (Finite (- 4515483090791227) (- 43)) = False"
  by code_simp

lemma eval_151: "fsub (Finite 8396715447636755 (- 45)) (Finite 0 (- 1074)) = Finite 8396715447636755 (- 45)"
  by code_simp

lemma eval_152: "fsub (Finite 4902045165595018 (- 44)) (Finite 0 (- 1074)) = Finite 4902045165595018 (- 44)"
  by code_simp

lemma eval_153: "flt (Finite 8396715447636755 (- 45)) (Finite 0 (- 1074)) = False"
  by code_simp

lemma eval_154: "fsub (Finite 4902045165595018 (- 44)) (Finite 8396715447636755 (- 45)) = Finite 5629499534213124 (- 47)"
  by code_simp

lemma eval_155: "flt (Finite 0 (- 1074)) (Finite 5629499534213124 (- 47)) = True"
  by code_simp

lemma eval_156: "flt (Finite 5629499534213120 (- 47)) (Finite 5629499534213124 (- 47)) = True"
  by code_simp

lemma eval_157: "flt (Finite 7036874417766400 (- 47)) (Finite 7036874417766400 (- 47)) = False"
  by code_simp

lemma eval_158: "flt (Finite 7036874417766400 (- 47)) (Finite 7036874417766400 (- 46)) = True"
  by code_simp

lemma eval_159: "flt (Finite 7036874417766400 (- 46)) (Finite 7036874417766400 (- 46)) = False"
  by code_simp

lemma eval_160: "flt (Finite 7036874417766400 (- 46)) (Finite 7036874417766400 (- 47)) = False"
  by code_simp

lemma eval_161: "feq (Finite 7036874417766400 (- 46)) (Finite 7036874417766400 (- 47)) = False"
  by code_simp

lemma eval_162: "feq (Finite 7036874417766400 (- 47)) (Finite 0 (- 1074)) = False"
  by code_simp

lemma eval_163: "fsub (Finite 7036874417766400 (- 46)) (Finite 8444249301319680 (- 48)) = Finite 4925812092436480 (- 46)"
  by code_simp

lemma eval_164: "flt (Finite 4925812092436480 (- 46)) (Finite 5629499534213120 (- 49)) = False"
  by code_simp

lemma eval_165: "fsub (Finite 7036874417766400 (- 46)) (Finite 7036874417766400 (- 45)) = Finite (- 7036874417766400) (- 46)"
  by code_simp

lemma eval_166: "flt (Finite 0 (- 1074)) (Finite (- 7036874417766400) (- 46)) = False"
  by code_simp

lemma eval_167: "fsub (Finite 5629499534213120 (- 49)) (Finite 0 (- 1074)) = Finite 5629499534213120 (- 49)"
  by code_simp

lemma eval_168: "fsub (Finite 7036874417766400 (- 46)) (Finite 0 (- 1074)) = Finite 7036874417766400 (- 46)"
  by code_simp

lemma eval_169: "flt (Finite 5629499534213120 (- 49)) (Finite 0 (- 1074)) = False"
  by code_simp

lemma eval_170: "fsub (Finite 7036874417766400 (- 47)) (Finite 0 (- 1074)) = Finite 7036874417766400 (- 47)"
  by code_simp

lemma eval_171: "flt (Finite 7036874417766400 (- 47)) (Finite 0 (- 1074)) = False"
  by code_simp

lemma eval_172: "fsub (Finite 7036874417766400 (- 46)) (Finite 5629499534213120 (- 49)) = Finite 6333186975989760 (- 46)"
  by code_simp

lemma eval_173: "flt (Finite 0 (- 1074)) (Finite 6333186975989760 (- 46)) = True"
  by code_simp

lemma eval_174: "flt (Finite 6333186975989760 (- 46)) (Finite 8444249301319680 (- 48)) = False"
  by code_simp

lemma eval_175: "fadd (Finite 7036874417766400 (- 47)) (Finite 8444249301319680 (- 48)) = Finite 5629499534213120 (- 46)"
  by code_simp

lemma eval_176: "flt (Finite 8796093022208000 (- 45)) (Finite 5629499534213120 (- 46)) = False"
  by code_simp

lemma eval_177: "fsub (Finite 8796093022208000 (- 45)) (Finite 7036874417766400 (- 45)) = Finite 7036874417766400 (- 47)"
  by code_simp

lemma eval_178: "flt (Finite 0 (- 1074)) (Finite 7036874417766400 (- 47)) = True"
  by code_simp

lemma eval_179: "fsub (Finite 7036874417766400 (- 47)) (Finite 7036874417766400 (- 47)) = Finite 0 (- 1074)"
  by code_simp

lemma eval_180: "fsub (Finite 8796093022208000 (- 45)) (Finite 7036874417766400 (- 47)) = Finite 7036874417766400 (- 45)"
  by code_simp

lemma eval_181: "flt (Finite 7768709357214106 (- 49)) (Finite 8416101803648614 (- 44)) = True"
  by code_simp

lemma eval_182: "flt (Finite 8416101803648614 (- 44)) (Finite 5453577673768960 (- 46)) = False"
  by code_simp

lemma eval_183: "flt (Finite 8416101803648614 (- 44)) (Finite 4858082176165478 (- 43)) = True"
  by code_simp

lemma eval_184: "flt (Finite 8416101803648614 (- 44)) (Finite 7768709357214106 (- 49)) = False"
  by code_simp

lemma eval_185: "flt (Finite 5453577673768960 (- 46)) (Finite 7768709357214106 (- 49)) = False"
  by code_simp

lemma eval_186: "flt (Finite 4858082176165478 (- 43)) (Finite 7768709357214106 (- 49)) = False"
  by code_simp

lemma eval_187: "feq (Finite 4858082176165478 (- 43)) (Finite 7768709357214106 (- 49)) = False"
  by code_simp

lemma eval_188: "feq (Finite 7768709357214106 (- 49)) (Finite 0 (- 1074)) = False"
  by code_simp

lemma eval_189: "fsub (Finite 5453577673768960 (- 46)) (Finite 7768709357214106 (- 49)) = Finite 8964978008234394 (- 47)"
  by code_simp

lemma eval_190: "flt (Finite 0 (- 1074)) (Finite 8964978008234394 (- 47)) = True"
  by code_simp

lemma eval_191: "flt (Finite 8964978008234394 (- 47)) (Finite 5629499534213120 (- 48)) = False"
  by code_simp

lemma eval_192: "fsub (Finite 4858082176165478 (- 43)) (Finite 8416101803648614 (- 44)) = Finite 5200250194729368 (- 46)"
  by code_simp

lemma eval_193: "flt (Finite 0 (- 1074)) (Finite 5200250194729368 (- 46)) = True"
  by code_simp

lemma eval_194: "flt (Finite 5200250194729368 (- 46)) (Finite 5629499534213120 (- 48)) = False"
  by code_simp

lemma eval_195: "fadd (Finite 7768709357214106 (- 49)) (Finite 5629499534213120 (- 48)) = Finite 4756927106410086 (- 47)"
  by code_simp

lemma eval_196: "flt (Finite 0 (- 1074)) (Finite 4756927106410086 (- 47)) = True"
  by code_simp

lemma eval_197: "fsub (Finite 4756927106410086 (- 47)) (Finite 5383208929591296 (- 43)) = Finite (- 5085900985440666) (- 43)"
  by code_simp

lemma eval_198: "flt (Finite 0 (- 1074)) (Finite (- 5085900985440666) (- 43)) = False"
  by code_simp

lemma eval_199: "fsub (Finite 7768709357214106 (- 49)) (Finite 0 (- 1074)) = Finite 7768709357214106 (- 49)"
  by code_simp

lemma eval_200: "fsub (Finite 4756927106410086 (- 47)) (Finite 0 (- 1074)) = Finite 4756927106410086 (- 47)"
  by code_simp

lemma eval_201: "flt (Finite 7768709357214106 (- 49)) (Finite 0 (- 1074)) = False"
  by code_simp

lemma eval_202: "fsub (Finite 4858082176165478 (- 43)) (Finite 6966505673588736 (- 43)) = Finite (- 8433693989693032) (- 45)"
  by code_simp

lemma eval_203: "flt (Finite 0 (- 1074)) (Finite (- 8433693989693032) (- 45)) = False"
  by code_simp

lemma eval_204: "fsub (Finite 8416101803648614 (- 44)) (Finite 0 (- 1074)) = Finite 8416101803648614 (- 44)"
  by code_simp

lemma eval_205: "fsub (Finite 4858082176165478 (- 43)) (Finite 0 (- 1074)) = Finite 4858082176165478 (- 43)"
  by code_simp

lemma eval_206: "flt (Finite 8416101803648614 (- 44)) (Finite 0 (- 1074)) = False"
  by code_simp

lemma eval_207: "fsub (Finite 4756927106410086 (- 47)) (Finite 7768709357214106 (- 49)) = Finite 5629499534213119 (- 48)"
  by code_simp

lemma eval_208: "flt (Finite 0 (- 1074)) (Finite 5629499534213119 (- 48)) = True"
  by code_simp

lemma eval_209: "flt (Finite 5629499534213119 (- 48)) (Finite 5629499534213120 (- 48)) = True"
  by code_simp

lemma eval_210: "flt (Finite 5629499534213120 (- 48)) (Finite 8444249301319680 (- 47)) = True"
  by code_simp

lemma eval_211: "flt (Finite 8444249301319680 (- 47)) (Finite 6333186975989760 (- 47)) = False"
  by code_simp

lemma eval_212: "flt (Finite 5629499534213120 (- 48)) (Finite 5629499534213120 (- 49)) = False"
  by code_simp

lemma eval_213: "flt (Finite 8444249301319680 (- 47)) (Finite 5629499534213120 (- 49)) = False"
  by code_simp

lemma eval_214: "flt (Finite 6333186975989760 (- 47)) (Finite 5629499534213120 (- 49)) = False"
  by code_simp

lemma eval_215: "feq (Finite 8444249301319680 (- 47)) (Finite 5629499534213120 (- 49)) = False"
  by code_simp

lemma eval_216: "feq (Finite 5629499534213120 (- 49)) (Finite 0 (- 1074)) = False"
  by code_simp

lemma eval_217: "fsub (Finite 8444249301319680 (- 47)) (Finite 5629499534213120 (- 49)) = Finite 7036874417766400 (- 47)"
  by code_simp

lemma eval_218: "fsub (Finite 6333186975989760 (- 47)) (Finite 5629499534213120 (- 48)) = Finite 7036874417766400 (- 48)"
  by code_simp

lemma eval_219: "flt (Finite 0 (- 1074)) (Finite 7036874417766400 (- 48)) = True"
  by code_simp

lemma eval_220: "fmul (Finite 6333186975989760 (- 45)) (Finite 4503599627370496 (- 52)) = Finite 6333186975989760 (- 45)"
  by code_simp

lemma eval_221: "fadd (Finite 6333186975989760 (- 45)) (Finite 0 (- 1074)) = Finite 6333186975989760 (- 45)"
  by code_simp

lemma eval_222: "fmul (Finite 6685030696878080 (- 45)) (Finite 4503599627370496 (- 52)) = Finite 6685030696878080 (- 45)"
  by code_simp

lemma eval_223: "fadd (Finite 6685030696878080 (- 45)) (Finite 0 (- 1074)) = Finite 6685030696878080 (- 45)"
  by code_simp

lemma eval_224: "fadd (Finite 6333186975989760 (- 45)) (Finite 7036874417766400 (- 47)) = Finite 8092405580431360 (- 45)"
  by code_simp

lemma eval_225: "fadd (Finite 6685030696878080 (- 45)) (Finite 7036874417766400 (- 48)) = Finite 7564639999098880 (- 45)"
  by code_simp

lemma eval_226: "fsub (Finite 8092405580431360 (- 45)) (Finite 7036874417766400 (- 45)) = Finite 8444249301319680 (- 48)"
  by code_simp

lemma eval_227: "flt (Finite 0 (- 1074)) (Finite 8444249301319680 (- 48)) = True"
  by code_simp

lemma eval_228: "fsub (Finite 6333186975989760 (- 45)) (Finite 8444249301319680 (- 48)) = Finite 5277655813324800 (- 45)"
  by code_simp

lemma eval_229: "fsub (Finite 8092405580431360 (- 45)) (Finite 8444249301319680 (- 48)) = Finite 7036874417766400 (- 45)"
  by code_simp

lemma eval_230: "flt (Finite 5277655813324800 (- 45)) (Finite 0 (- 1074)) = False"
  by code_simp

lemma eval_231: "fsub (Finite 7564639999098880 (- 45)) (Finite 7036874417766400 (- 45)) = Finite 8444249301319680 (- 49)"
  by code_simp

lemma eval_232: "fsub (Finite 6685030696878080 (- 45)) (Finite 8444249301319680 (- 49)) = Finite 6157265115545600 (- 45)"
  by code_simp

lemma eval_233: "fsub (Finite 7564639999098880 (- 45)) (Finite 8444249301319680 (- 49)) = Finite 7036874417766400 (- 45)"
  by code_simp

lemma eval_234: "flt (Finite 6157265115545600 (- 45)) (Finite 0 (- 1074)) = False"
  by code_simp

lemma eval_235: "feq (Finite 0 (- 1074)) (Finite 0 (- 1074)) = True"
  by code_simp

lemma eval_236: "fsub (Finite 6333186975989760 (- 45)) (Finite 7036874417766400 (- 46)) = Finite 5629499534213120 (- 46)"
  by code_simp

lemma eval_237: "flt (Finite 7036874417766400 (- 46)) (Finite 6333186975989760 (- 45)) = True"
  by code_simp

lemma eval_238: "flt (Finite 6333186975989760 (- 45)) (Finite 4925812092436480 (- 45)) = False"
  by code_simp

lemma eval_239: "flt (Finite 6333186975989760 (- 45)) (Finite 7036874417766400 (- 46)) = False"
  by code_simp

lemma eval_240: "flt (Finite 4925812092436480 (- 45)) (Finite 7036874417766400 (- 46)) = False"
  by code_simp

lemma eval_241: "feq (Finite 6333186975989760 (- 45)) (Finite 7036874417766400 (- 46)) = False"
  by code_simp

lemma eval_242: "feq (Finite 7036874417766400 (- 46)) (Finite 0 (- 1074)) = False"
  by code_simp

lemma eval_243: "fmul (Finite 4925812092436480 (- 46)) (Finite 7874865634144982 (- 53)) = Finite 8613134287346074 (- 47)"
  by code_simp

lemma eval_244: "fadd (Finite 8613134287346074 (- 47)) (Finite 0 (- 1074)) = Finite 8613134287346074 (- 47)"
  by code_simp

lemma eval_245: "fmul (Finite 4644337115725824 (- 47)) (Finite 7873843057124576 (- 53)) = Finite 8119900652659719 (- 48)"
  by code_simp

lemma eval_246: "fadd (Finite 8119900652659719 (- 48)) (Finite 0 (- 1074)) = Finite 8119900652659719 (- 48)"
  by code_simp

lemma eval_247: "fadd (Finite 8613134287346074 (- 47)) (Finite 5629499534213120 (- 46)) = Finite 4968033338943078 (- 45)"
  by code_simp

lemma eval_248: "fadd (Finite 8119900652659719 (- 48)) (Finite 5629499534213120 (- 47)) = Finite 4844724930271490 (- 46)"
  by code_simp

lemma eval_249: "fsub (Finite 4968033338943078 (- 45)) (Finite 5383208929591296 (- 43)) = Finite (- 8282401189711053) (- 44)"
  by code_simp

lemma eval_250: "flt (Finite 0 (- 1074)) (Finite (- 8282401189711053) (- 44)) = False"
  by code_simp

lemma eval_251: "fsub (Finite 8613134287346074 (- 47)) (Finite 0 (- 1074)) = Finite 8613134287346074 (- 47)"
  by code_simp

lemma eval_252: "fsub (Finite 4968033338943078 (- 45)) (Finite 0 (- 1074)) = Finite 4968033338943078 (- 45)"
  by code_simp

lemma eval_253: "flt (Finite 8613134287346074 (- 47)) (Finite 0 (- 1074)) = False"
  by code_simp

lemma eval_254: "fsub (Finite 4844724930271490 (- 46)) (Finite 6966505673588736 (- 43)) = Finite (- 6360915057304800) (- 43)"
  by code_simp

lemma eval_255: "flt (Finite 0 (- 1074)) (Finite (- 6360915057304800) (- 43)) = False"
  by code_simp

lemma eval_256: "fsub (Finite 8119900652659719 (- 48)) (Finite 0 (- 1074)) = Finite 8119900652659719 (- 48)"
  by code_simp

lemma eval_257: "fsub (Finite 4844724930271490 (- 46)) (Finite 0 (- 1074)) = Finite 4844724930271490 (- 46)"
  by code_simp

lemma eval_258: "flt (Finite 8119900652659719 (- 48)) (Finite 0 (- 1074)) = False"
  by code_simp

lemma eval_259: "fsub (Finite 4968033338943078 (- 45)) (Finite 8613134287346074 (- 47)) = Finite 5629499534213119 (- 46)"
  by code_simp

lemma eval_260: "flt (Finite 0 (- 1074)) (Finite 5629499534213119 (- 46)) = True"
  by code_simp

lemma eval_261: "flt (Finite 5629499534213119 (- 46)) (Finite 5629499534213120 (- 46)) = True"
  by code_simp

lemma eval_262: "D 1 = Finite 4503599627370496 (- 52)"
  by code_simp

lemma eval_263: "D 36 = Finite 5066549580791808 (- 47)"
  by code_simp

lemma eval_264: "D 300 = Finite 5277655813324800 (- 44)"
  by code_simp

lemma eval_265: "D 80 = Finite 5629499534213120 (- 46)"
  by code_simp

lemma eval_266: "D 140 = Finite 4925812092436480 (- 45)"
  by code_simp

lemma eval_267: "D 100 = Finite 7036874417766400 (- 46)"
  by code_simp

lemma eval_268: "D 40 = Finite 5629499534213120 (- 47)"
  by code_simp

lemma eval_269: "D 5 = Finite 5629499534213120 (- 50)"
  by code_simp

lemma eval_270: "D 25 = Finite 7036874417766400 (- 48)"
  by code_simp

lemma eval_271: "D 20 = Finite 5629499534213120 (- 48)"
  by code_simp

lemma eval_272: "D 2 = Finite 4503599627370496 (- 51)"
  by code_simp

lemma eval_273: "D 3 = Finite 6755399441055744 (- 51)"
  by code_simp

lemma eval_274: "D 7 = Finite 7881299347898368 (- 50)"
  by code_simp

lemma eval_275: "D 9 = Finite 5066549580791808 (- 49)"
  by code_simp

lemma eval_276: "D 207 = Finite 7283165022388224 (- 45)"
  by code_simp

lemma eval_277: "D 109 = Finite 7670193115365376 (- 46)"
  by code_simp

lemma eval_278: "D 27 = Finite 7599824371187712 (- 48)"
  by code_simp

lemma eval_279: "D 24 = Finite 6755399441055744 (- 48)"
  by code_simp

lemma eval_280: "D 47 = Finite 6614661952700416 (- 47)"
  by code_simp

lemma eval_281: "D 39 = Finite 5488762045857792 (- 47)"
  by code_simp

lemma eval_282: "D 100000000000000000 = Finite 6250000000000000 4"
  by code_simp

lemma eval_283: "D 100000000000000612 = Finite 6250000000000038 4"
  by code_simp

lemma eval_284: "D 100000000000000792 = Finite 6250000000000050 4"
  by code_simp

lemma eval_285: "D 4 = Finite 4503599627370496 (- 50)"
  by code_simp

lemma eval_286: "D 612 = Finite 5383208929591296 (- 43)"
  by code_simp

lemma eval_287: "D 792 = Finite 6966505673588736 (- 43)"
  by code_simp

lemma eval_288: "D 290 = Finite 5101733952880640 (- 44)"
  by code_simp

lemma eval_289: "D 295 = Finite 5189694883102720 (- 44)"
  by code_simp

lemma eval_290: "D 220 = Finite 7740561859543040 (- 45)"
  by code_simp

lemma eval_291: "D 260 = Finite 4573968371548160 (- 44)"
  by code_simp

lemma eval_292: "D 273 = Finite 4802666790125568 (- 44)"
  by code_simp

lemma eval_293: "D 50 = Finite 7036874417766400 (- 47)"
  by code_simp

lemma eval_294: "D 60 = Finite 8444249301319680 (- 47)"
  by code_simp

lemma eval_295: "D 200 = Finite 7036874417766400 (- 45)"
  by code_simp

lemma eval_296: "D 30 = Finite 8444249301319680 (- 48)"
  by code_simp

lemma eval_297: "D 250 = Finite 8796093022208000 (- 45)"
  by code_simp

lemma eval_298: "D 45 = Finite 6333186975989760 (- 47)"
  by code_simp

lemma eval_299: "D 180 = Finite 6333186975989760 (- 45)"
  by code_simp

lemma eval_300: "D 190 = Finite 6685030696878080 (- 45)"
  by code_simp

lemma eval_301: "D 150 = Finite 5277655813324800 (- 45)"
  by code_simp

lemma eval_302: "D 175 = Finite 6157265115545600 (- 45)"
  by code_simp

lemma eval_303: "D 70 = Finite 4925812092436480 (- 46)"
  by code_simp

lemma eval_304: "D 33 = Finite 4644337115725824 (- 47)"
  by code_simp

lemma eval_305: "dec 1 10 = Finite 7205759403792794 (- 56)"
  by code_simp

lemma eval_306: "dec 6 10 = Finite 5404319552844595 (- 53)"
  by code_simp

lemma eval_307: "dec 2 10 = Finite 7205759403792794 (- 55)"
  by code_simp

lemma eval_308: "dec 3 10 = Finite 5404319552844595 (- 54)"
  by code_simp

lemma eval_309: "dec 8 10 = Finite 7205759403792794 (- 53)"
  by code_simp

lemma eval_310: "dec 3424 10 = Finite 6023564501608038 (- 44)"
  by code_simp

lemma eval_311: "dec 2998 10 = Finite 5274137376115917 (- 44)"
  by code_simp

lemma eval_312: "dec 4604 10 = Finite 8099442454849126 (- 44)"
  by code_simp

lemma eval_313: "dec 8104 10 = Finite 7128353785197363 (- 43)"
  by code_simp

lemma eval_314: "dec 2011 10 = Finite 7075577227064115 (- 45)"
  by code_simp

lemma eval_315: "dec 6225 10 = Finite 5475567906324480 (- 43)"
  by code_simp

lemma eval_316: "dec 4 10 = Finite 7205759403792794 (- 54)"
  by code_simp

lemma eval_317: "dec 9 10 = Finite 8106479329266893 (- 53)"
  by code_simp

lemma eval_318: "dec 138 10 = Finite 7768709357214106 (- 49)"
  by code_simp

lemma eval_319: "dec 4784 10 = Finite 8416101803648614 (- 44)"
  by code_simp

lemma eval_320: "dec 775 10 = Finite 5453577673768960 (- 46)"
  by code_simp

lemma eval_321: "dec 5523 10 = Finite 4858082176165478 (- 43)"
  by code_simp

lemma eval_322: "dec 338 10 = Finite 4756927106410086 (- 47)"
  by code_simp

lemmas evals = eval_1 eval_2 eval_3 eval_4 eval_5 eval_6 eval_7 eval_8 eval_9 eval_10
  eval_11 eval_12 eval_13 eval_14 eval_15 eval_16 eval_17 eval_18 eval_19 eval_20 eval_21
  eval_22 eval_23 eval_24 eval_25 eval_26 eval_27 eval_28 eval_29 eval_30 eval_31 eval_32
  eval_33 eval_34 eval_35 eval_36 eval_37 eval_38 eval_39 eval_40 eval_41 eval_42 eval_43
  eval_44 eval_45 eval_46 eval_47 eval_48 eval_49 eval_50 eval_51 eval_52 eval_53 eval_54
  eval_55 eval_56 eval_57 eval_58 eval_59 eval_60 eval_61 eval_62 eval_63 eval_64 eval_65
  eval_66 eval_67 eval_68 eval_69 eval_70 eval_71 eval_72 eval_73 eval_74 eval_75 eval_76
  eval_77 eval_78 eval_79 eval_80 eval_81 eval_82 eval_83 eval_84 eval_85 eval_86 eval_87
  eval_88 eval_89 eval_90 eval_91 eval_92 eval_93 eval_94 eval_95 eval_96 eval_97 eval_98
  eval_99 eval_100 eval_101 eval_102 eval_103 eval_104 eval_105 eval_106 eval_107 eval_108
  eval_109 eval_110 eval_111 eval_112 eval_113 eval_114 eval_115 eval_116 eval_117 eval_118
  eval_119 eval_120 eval_121 eval_122 eval_123 eval_124 eval_125 eval_126 eval_127 eval_128
  eval_129 eval_130 eval_131 eval_132 eval_133 eval_134 eval_135 eval_136 eval_137 eval_138
  eval_139 eval_140 eval_141 eval_142 eval_143 eval_144 eval_145 eval_146 eval_147 eval_148
  eval_149 eval_150 eval_151 eval_152 eval_153 eval_154 eval_155 eval_156 eval_157 eval_158
  eval_159 eval_160 eval_161 eval_162 eval_163 eval_164 eval_165 eval_166 eval_167 eval_168
  eval_169 eval_170 eval_171 eval_172 eval_173 eval_174 eval_175 eval_176 eval_177 eval_178
  eval_179 eval_180 eval_181 eval_182 eval_183 eval_184 eval_185 eval_186 eval_187 eval_188
  eval_189 eval_190 eval_191 eval_192 eval_193 eval_194 eval_195 eval_196 eval_197 eval_198
  eval_199 eval_200 eval_201 eval_202 eval_203 eval_204 eval_205 eval_206 eval_207 eval_208
  eval_209 eval_210 eval_211 eval_212 eval_213 eval_214 eval_215 eval_216 eval_217 eval_218
  eval_219 eval_220 eval_221 eval_222 eval_223 eval_224 eval_225 eval_226 eval_227 eval_228
  eval_229 eval_230 eval_231 eval_232 eval_233 eval_234 eval_235 eval_236 eval_237 eval_238
  eval_239 eval_240 eval_241 eval_242 eval_243 eval_244 eval_245 eval_246 eval_247 eval_248
  eval_249 eval_250 eval_251 eval_252 eval_253 eval_254 eval_255 eval_256 eval_257 eval_258
  eval_259 eval_260 eval_261 eval_262 eval_263 eval_264 eval_265 eval_266 eval_267 eval_268
  eval_269 eval_270 eval_271 eval_272 eval_273 eval_274 eval_275 eval_276 eval_277 eval_278
  eval_279 eval_280 eval_281 eval_282 eval_283 eval_284 eval_285 eval_286 eval_287 eval_288
  eval_289 eval_290 eval_291 eval_292 eval_293 eval_294 eval_295 eval_296 eval_297 eval_298
  eval_299 eval_300 eval_301 eval_302 eval_303 eval_304 eval_305 eval_306 eval_307 eval_308
  eval_309 eval_310 eval_311 eval_312 eval_313 eval_314 eval_315 eval_316 eval_317 eval_318
  eval_319 eval_320 eval_321 eval_322

lemmas eval_defs = clamp_rect_def rect_width_def rect_height_def rect_bool_def
  pymax_def pymin_def Let_def

lemmas exact_defs = clamp_rect_exact_def clamp_axis_exact_def exactly_def
  exact_quotient_def canvas_to_pdf_exact_def pdf_rect_to_canvas_rect_exact_def
  anchored_rect_exact_def

section \<open>Facts about clamp_rect\<close>

lemma clamp_rect_axes:
  "clamp_rect r b =
     Rect (clamp_lo (x0 r) (x1 r) (x0 b) (x1 b)) (clamp_lo (y0 r) (y1 r) (y0 b) (y1 b))
          (clamp_hi (x0 r) (x1 r) (x0 b) (x1 b)) (clamp_hi (y0 r) (y1 r) (y0 b) (y1 b))"
  by (simp add: clamp_rect_def clamp_lo_def clamp_hi_def Let_def split: prod.splits)


lemma clamp_axis_val:
  assumes "clamp_axis_exact lo hi blo bhi"
  shows "is_finite (clamp_lo lo hi blo bhi)"
    and "is_finite (clamp_hi lo hi blo bhi)"
    and "val (clamp_lo lo hi blo bhi)
           = (if val lo - max 0 (val hi - val bhi) < val blo then val blo
              else val lo - max 0 (val hi - val bhi))"
    and "val (clamp_hi lo hi blo bhi) = val (clamp_lo lo hi blo bhi) + (val hi - val lo)"
proof -
  define d where "d = pymax (D 0) (fsub hi bhi)"
  define c0 where "c0 = fsub lo d"
  define c1 where "c1 = fsub hi d"
  from assms have fin: "is_finite lo" "is_finite hi" "is_finite blo" "is_finite bhi"
    and sub: "is_finite (fsub hi bhi)" "val (fsub hi bhi) = val hi - val bhi"
    and c0: "is_finite c0" "val c0 = val lo - val d"
    and c1: "is_finite c1" "val c1 = val hi - val d"
    and br: "flt c0 blo \<Longrightarrow> is_finite (fsub blo c0) \<and> val (fsub blo c0) = val blo - val c0
               \<and> is_finite (fadd c1 (fsub blo c0))
               \<and> val (fadd c1 (fsub blo c0)) = val c1 + val (fsub blo c0)"
    by (simp_all add: clamp_axis_exact_def exactly_def Let_def d_def c0_def c1_def)
  have d: "val d = max 0 (val hi - val bhi)"
    using pymax_val [OF finite_D_zero sub(1)] by (simp add: d_def val_D_zero sub(2))
  have lt: "flt c0 blo = (val lo - max 0 (val hi - val bhi) < val blo)"
    using flt_val [OF c0(1) fin(3)] by (simp add: c0(2) d)
  have lo': "clamp_lo lo hi blo bhi = (if flt c0 blo then blo else c0)"
    by (simp add: clamp_lo_def Let_def d_def c0_def)
  have hi': "clamp_hi lo hi blo bhi = (if flt c0 blo then fadd c1 (fsub blo c0) else c1)"
    by (simp add: clamp_hi_def Let_def d_def c0_def c1_def)
  show "is_finite (clamp_lo lo hi blo bhi)"
    using fin c0 by (simp add: lo')
  show "is_finite (clamp_hi lo hi blo bhi)"
    using br c1 by (simp add: hi')
  show "val (clamp_lo lo hi blo bhi)
           = (if val lo - max 0 (val hi - val bhi) < val blo then val blo
              else val lo - max 0 (val hi - val bhi))"
    using lt by (simp add: lo' c0(2) d)
  show "val (clamp_hi lo hi blo bhi) = val (clamp_lo lo hi blo bhi) + (val hi - val lo)"
    using br by (cases "flt c0 blo") (simp_all add: lo' hi' c0(2) c1(2))
qed

lemma clamp_axis_diff:
  assumes "clamp_axis_exact lo hi blo bhi"
  shows "val (clamp_hi lo hi blo bhi) - val (clamp_lo lo hi blo bhi) = val hi - val lo"
  using clamp_axis_val(4) [OF assms] by simp

lemma clamp_axis_inside:
  assumes "clamp_axis_exact lo hi blo bhi" and "val hi - val lo \<le> val bhi - val blo"
  shows "val blo \<le> val (clamp_lo lo hi blo bhi) \<and> val (clamp_hi lo hi blo bhi) \<le> val bhi"
  using clamp_axis_val(3,4) [OF assms(1)] assms(2) by (simp add: max_def split: if_splits)


lemma clamp_axis_width:
  assumes "clamp_axis_exact lo hi blo bhi"
  shows "fsub (clamp_hi lo hi blo bhi) (clamp_lo lo hi blo bhi) = fsub hi lo"
proof -
  from assms have "is_finite lo" "is_finite hi"
    by (simp_all add: clamp_axis_exact_def)
  then show ?thesis
    using clamp_axis_val(1,2) [OF assms] clamp_axis_diff [OF assms]
    by (intro fsub_cong) simp_all
qed

lemma clamp_axis_twice:
  assumes "clamp_axis_exact lo hi blo bhi"
    and "clamp_axis_exact (clamp_lo lo hi blo bhi) (clamp_hi lo hi blo bhi) blo bhi"
  shows "val (clamp_lo (clamp_lo lo hi blo bhi) (clamp_hi lo hi blo bhi) blo bhi)
           = val (clamp_lo lo hi blo bhi)"
    and "val (clamp_hi (clamp_lo lo hi blo bhi) (clamp_hi lo hi blo bhi) blo bhi)
           = val (clamp_hi lo hi blo bhi)"
  using clamp_axis_val(3,4) [OF assms(1)] clamp_axis_val(3,4) [OF assms(2)]
  by (simp_all add: max_def split: if_splits)




text \<open>
  C10, as the code has it. Whenever the arithmetic of both applications is exact,
  clamping a second time changes no coordinate: the two results are equal as Python
  compares them, coordinate by coordinate, also when the bounds are smaller than the
  rectangle.
\<close>

theorem clamp_rect_idempotent:
  "clamp_rect_exact R B \<and> clamp_rect_exact (clamp_rect R B) B \<longrightarrow>
     is_finite (x0 (clamp_rect (clamp_rect R B) B))
     \<and> is_finite (y0 (clamp_rect (clamp_rect R B) B))
     \<and> is_finite (x1 (clamp_rect (clamp_rect R B) B))
     \<and> is_finite (y1 (clamp_rect (clamp_rect R B) B))
     \<and> val (x0 (clamp_rect (clamp_rect R B) B)) = val (x0 (clamp_rect R B))
     \<and> val (y0 (clamp_rect (clamp_rect R B) B)) = val (y0 (clamp_rect R B))
     \<and> val (x1 (clamp_rect (clamp_rect R B) B)) = val (x1 (clamp_rect R B))
     \<and> val (y1 (clamp_rect (clamp_rect R B) B)) = val (y1 (clamp_rect R B))"
proof
  assume ex: "clamp_rect_exact R B \<and> clamp_rect_exact (clamp_rect R B) B"
  let ?lx = "clamp_lo (x0 R) (x1 R) (x0 B) (x1 B)"
  let ?hx = "clamp_hi (x0 R) (x1 R) (x0 B) (x1 B)"
  let ?ly = "clamp_lo (y0 R) (y1 R) (y0 B) (y1 B)"
  let ?hy = "clamp_hi (y0 R) (y1 R) (y0 B) (y1 B)"
  from ex have x: "clamp_axis_exact (x0 R) (x1 R) (x0 B) (x1 B)"
    and y: "clamp_axis_exact (y0 R) (y1 R) (y0 B) (y1 B)"
    and xx: "clamp_axis_exact ?lx ?hx (x0 B) (x1 B)"
    and yy: "clamp_axis_exact ?ly ?hy (y0 B) (y1 B)"
    by (simp_all add: clamp_rect_exact_def clamp_rect_axes)
  show "is_finite (x0 (clamp_rect (clamp_rect R B) B))
     \<and> is_finite (y0 (clamp_rect (clamp_rect R B) B))
     \<and> is_finite (x1 (clamp_rect (clamp_rect R B) B))
     \<and> is_finite (y1 (clamp_rect (clamp_rect R B) B))
     \<and> val (x0 (clamp_rect (clamp_rect R B) B)) = val (x0 (clamp_rect R B))
     \<and> val (y0 (clamp_rect (clamp_rect R B) B)) = val (y0 (clamp_rect R B))
     \<and> val (x1 (clamp_rect (clamp_rect R B) B)) = val (x1 (clamp_rect R B))
     \<and> val (y1 (clamp_rect (clamp_rect R B) B)) = val (y1 (clamp_rect R B))"
    using clamp_axis_val(1,2) [OF xx] clamp_axis_val(1,2) [OF yy]
      clamp_axis_twice [OF x xx] clamp_axis_twice [OF y yy]
    by (simp add: clamp_rect_axes)
qed

theorem clamp_rect_idempotent_witness:
  "clamp_rect_exact (Rect (D 5) (D 5) (D 25) (D 25)) (Rect (D 0) (D 0) (D 10) (D 10))
   \<and> clamp_rect_exact (clamp_rect (Rect (D 5) (D 5) (D 25) (D 25))
                                   (Rect (D 0) (D 0) (D 10) (D 10)))
                       (Rect (D 0) (D 0) (D 10) (D 10))
   \<and> clamp_rect (clamp_rect (Rect (D 5) (D 5) (D 25) (D 25)) (Rect (D 0) (D 0) (D 10) (D 10)))
                 (Rect (D 0) (D 0) (D 10) (D 10))
       = Rect (D 0) (D 0) (D 20) (D 20)
   \<and> val (x1 (clamp_rect (clamp_rect (Rect (D 5) (D 5) (D 25) (D 25))
                                      (Rect (D 0) (D 0) (D 10) (D 10)))
                          (Rect (D 0) (D 0) (D 10) (D 10))))
       = val (x1 (clamp_rect (Rect (D 5) (D 5) (D 25) (D 25)) (Rect (D 0) (D 0) (D 10) (D 10))))"
proof -
  have e1: "clamp_rect_exact (Rect (D 5) (D 5) (D 25) (D 25)) (Rect (D 0) (D 0) (D 10) (D 10))"
    by (simp add: exact_defs eval_defs evals del: fadd.simps fmul.simps flt.simps feq.simps fdiv.simps)
  have v1: "clamp_rect (Rect (D 5) (D 5) (D 25) (D 25)) (Rect (D 0) (D 0) (D 10) (D 10))
              = Rect (D 0) (D 0) (D 20) (D 20)"
    by (simp add: eval_defs evals del: fadd.simps fmul.simps flt.simps feq.simps fdiv.simps)
  have e2: "clamp_rect_exact (clamp_rect (Rect (D 5) (D 5) (D 25) (D 25))
                                   (Rect (D 0) (D 0) (D 10) (D 10)))
                       (Rect (D 0) (D 0) (D 10) (D 10))"
    unfolding v1 by (simp add: exact_defs eval_defs evals del: fadd.simps fmul.simps flt.simps feq.simps fdiv.simps)
  have v: "clamp_rect (clamp_rect (Rect (D 5) (D 5) (D 25) (D 25)) (Rect (D 0) (D 0) (D 10) (D 10)))
                 (Rect (D 0) (D 0) (D 10) (D 10))
       = Rect (D 0) (D 0) (D 20) (D 20)"
    unfolding v1 by (simp add: eval_defs evals del: fadd.simps fmul.simps flt.simps feq.simps fdiv.simps)
  from clamp_rect_idempotent
         [of "Rect (D 5) (D 5) (D 25) (D 25)" "Rect (D 0) (D 0) (D 10) (D 10)"] e1 e2
  have "val (x1 (clamp_rect (clamp_rect (Rect (D 5) (D 5) (D 25) (D 25))
                                      (Rect (D 0) (D 0) (D 10) (D 10)))
                          (Rect (D 0) (D 0) (D 10) (D 10))))
       = val (x1 (clamp_rect (Rect (D 5) (D 5) (D 25) (D 25)) (Rect (D 0) (D 0) (D 10) (D 10))))"
    by blast
  with e1 e2 v show ?thesis by blast
qed

text \<open>
  C10, as the specification states it, fails on the code's floats. For the rectangle
  (342.4, 299.8, 460.4, 810.4) and the bounds (0, 0, 201.1, 622.5) the first clamp gives
  \<open>x0 = 83.10000000000002\<close> and the second 83.1: clamping again moves the rectangle.
\<close>

theorem clamp_rect_idempotent_counterexample:
  "flt (x0 (clamp_rect
              (clamp_rect (Rect (dec 3424 10) (dec 2998 10) (dec 4604 10) (dec 8104 10))
                          (Rect (D 0) (D 0) (dec 2011 10) (dec 6225 10)))
              (Rect (D 0) (D 0) (dec 2011 10) (dec 6225 10))))
       (x0 (clamp_rect (Rect (dec 3424 10) (dec 2998 10) (dec 4604 10) (dec 8104 10))
                       (Rect (D 0) (D 0) (dec 2011 10) (dec 6225 10))))
   \<and> clamp_rect
         (clamp_rect (Rect (dec 3424 10) (dec 2998 10) (dec 4604 10) (dec 8104 10))
                     (Rect (D 0) (D 0) (dec 2011 10) (dec 6225 10)))
         (Rect (D 0) (D 0) (dec 2011 10) (dec 6225 10))
       \<noteq> clamp_rect (Rect (dec 3424 10) (dec 2998 10) (dec 4604 10) (dec 8104 10))
                      (Rect (D 0) (D 0) (dec 2011 10) (dec 6225 10))"
  by (simp add: eval_defs evals del: fadd.simps fmul.simps flt.simps feq.simps fdiv.simps)

section \<open>Coordinate mapping and initial placement\<close>

lemma exact_quotientE:
  assumes "exact_quotient a b"
  obtains q where "fdiv a b = Inr q" "is_finite q" "val q = val a / val b"
  using assms by (auto simp add: exact_quotient_def exactly_def split: sum.splits)

lemma anchored_rect:
  assumes "anchored_rect_exact xp yp w h pr"
  shows "is_finite (x0 (clamp_rect (Rect xp yp (fadd xp w) (fadd yp h)) pr))
         \<and> is_finite (y0 (clamp_rect (Rect xp yp (fadd xp w) (fadd yp h)) pr))
         \<and> is_finite (x1 (clamp_rect (Rect xp yp (fadd xp w) (fadd yp h)) pr))
         \<and> is_finite (y1 (clamp_rect (Rect xp yp (fadd xp w) (fadd yp h)) pr))"
    and "val (x1 (clamp_rect (Rect xp yp (fadd xp w) (fadd yp h)) pr))
           - val (x0 (clamp_rect (Rect xp yp (fadd xp w) (fadd yp h)) pr)) = val w"
    and "val (y1 (clamp_rect (Rect xp yp (fadd xp w) (fadd yp h)) pr))
           - val (y0 (clamp_rect (Rect xp yp (fadd xp w) (fadd yp h)) pr)) = val h"
    and "fsub (x1 (clamp_rect (Rect xp yp (fadd xp w) (fadd yp h)) pr))
              (x0 (clamp_rect (Rect xp yp (fadd xp w) (fadd yp h)) pr)) = fsub w (D 0)"
    and "fsub (y1 (clamp_rect (Rect xp yp (fadd xp w) (fadd yp h)) pr))
              (y0 (clamp_rect (Rect xp yp (fadd xp w) (fadd yp h)) pr)) = fsub h (D 0)"
    and "val w \<le> val (x1 pr) - val (x0 pr) \<and> val h \<le> val (y1 pr) - val (y0 pr) \<longrightarrow>
           val (x0 pr) \<le> val (x0 (clamp_rect (Rect xp yp (fadd xp w) (fadd yp h)) pr))
           \<and> val (y0 pr) \<le> val (y0 (clamp_rect (Rect xp yp (fadd xp w) (fadd yp h)) pr))
           \<and> val (x1 (clamp_rect (Rect xp yp (fadd xp w) (fadd yp h)) pr)) \<le> val (x1 pr)
           \<and> val (y1 (clamp_rect (Rect xp yp (fadd xp w) (fadd yp h)) pr)) \<le> val (y1 pr)"
proof -
  from assms have fin: "is_finite xp" "is_finite yp" "is_finite w" "is_finite h"
    and sx: "is_finite (fadd xp w)" "val (fadd xp w) = val xp + val w"
    and sy: "is_finite (fadd yp h)" "val (fadd yp h) = val yp + val h"
    and x: "clamp_axis_exact xp (fadd xp w) (x0 pr) (x1 pr)"
    and y: "clamp_axis_exact yp (fadd yp h) (y0 pr) (y1 pr)"
    by (simp_all add: anchored_rect_exact_def exactly_def clamp_rect_exact_def)
  let ?C = "clamp_rect (Rect xp yp (fadd xp w) (fadd yp h)) pr"
  show "is_finite (x0 ?C) \<and> is_finite (y0 ?C) \<and> is_finite (x1 ?C) \<and> is_finite (y1 ?C)"
    using clamp_axis_val(1,2) [OF x] clamp_axis_val(1,2) [OF y] by (simp add: clamp_rect_axes)
  show dx: "val (x1 ?C) - val (x0 ?C) = val w"
    using clamp_axis_diff [OF x] sx(2) by (simp add: clamp_rect_axes)
  show dy: "val (y1 ?C) - val (y0 ?C) = val h"
    using clamp_axis_diff [OF y] sy(2) by (simp add: clamp_rect_axes)
  have "fsub (fadd xp w) xp = fsub w (D 0)"
    using fin sx by (intro fsub_cong) (simp_all add: finite_D_zero val_D_zero)
  then show "fsub (x1 ?C) (x0 ?C) = fsub w (D 0)"
    using clamp_axis_width [OF x] by (simp add: clamp_rect_axes)
  have "fsub (fadd yp h) yp = fsub h (D 0)"
    using fin sy by (intro fsub_cong) (simp_all add: finite_D_zero val_D_zero)
  then show "fsub (y1 ?C) (y0 ?C) = fsub h (D 0)"
    using clamp_axis_width [OF y] by (simp add: clamp_rect_axes)
  show "val w \<le> val (x1 pr) - val (x0 pr) \<and> val h \<le> val (y1 pr) - val (y0 pr) \<longrightarrow>
           val (x0 pr) \<le> val (x0 ?C) \<and> val (y0 pr) \<le> val (y0 ?C)
           \<and> val (x1 ?C) \<le> val (x1 pr) \<and> val (y1 ?C) \<le> val (y1 pr)"
    using clamp_axis_inside [OF x] clamp_axis_inside [OF y] sx(2) sy(2)
    by (simp add: clamp_rect_axes)
qed

text \<open>
  C2, as the code has it. For a page rectangle and a scale pair with both components
  nonzero, map the corners \<open>(a, b)\<close> and \<open>(c, d)\<close> of a canvas rectangle to PDF
  space with \<open>canvas_to_pdf\<close> and the resulting rectangle back with
  \<open>pdf_rect_to_canvas_rect\<close>. Whenever the products, sums, differences and quotients
  of the two mappings are exact in float arithmetic, the call returns, without raising,
  the canvas rectangle it started from. Nothing is promised when an operation rounds.
\<close>

theorem canvas_pdf_round_trip:
  assumes "\<not> is_zero sx" and "\<not> is_zero sy"
    and "canvas_to_pdf_exact a b page_rect (sx, sy)"
    and "canvas_to_pdf_exact c d page_rect (sx, sy)"
    and "pdf_rect_to_canvas_rect_exact
           (Rect (fst (canvas_to_pdf a b page_rect (sx, sy)))
                 (snd (canvas_to_pdf a b page_rect (sx, sy)))
                 (fst (canvas_to_pdf c d page_rect (sx, sy)))
                 (snd (canvas_to_pdf c d page_rect (sx, sy))))
           page_rect (sx, sy)"
  shows "\<exists>a' b' c' d'.
           pdf_rect_to_canvas_rect
             (Rect (fst (canvas_to_pdf a b page_rect (sx, sy)))
                   (snd (canvas_to_pdf a b page_rect (sx, sy)))
                   (fst (canvas_to_pdf c d page_rect (sx, sy)))
                   (snd (canvas_to_pdf c d page_rect (sx, sy))))
             page_rect (sx, sy)
           = Inr (a', b', c', d')
           \<and> is_finite a' \<and> is_finite b' \<and> is_finite c' \<and> is_finite d'
           \<and> val a' = val a \<and> val b' = val b \<and> val c' = val c \<and> val d' = val d"
proof -
  let ?xa = "fadd (fmul a sx) (x0 page_rect)"
  let ?ya = "fadd (fmul b sy) (y0 page_rect)"
  let ?xc = "fadd (fmul c sx) (x0 page_rect)"
  let ?yc = "fadd (fmul d sy) (y0 page_rect)"
  from assms(3) have fs: "is_finite sx" "is_finite sy"
    and va: "val ?xa = val a * val sx + val (x0 page_rect)"
            "val ?ya = val b * val sy + val (y0 page_rect)"
    by (simp_all add: canvas_to_pdf_exact_def exactly_def)
  from assms(4) have vc: "val ?xc = val c * val sx + val (x0 page_rect)"
            "val ?yc = val d * val sy + val (y0 page_rect)"
    by (simp_all add: canvas_to_pdf_exact_def exactly_def)
  have nz: "val sx \<noteq> 0" "val sy \<noteq> 0"
    using assms(1,2) fs by (simp_all add: val_zero_iff)
  from assms(5) have
    s: "val (fsub ?xa (x0 page_rect)) = val ?xa - val (x0 page_rect)"
       "val (fsub ?ya (y0 page_rect)) = val ?ya - val (y0 page_rect)"
       "val (fsub ?xc (x0 page_rect)) = val ?xc - val (x0 page_rect)"
       "val (fsub ?yc (y0 page_rect)) = val ?yc - val (y0 page_rect)"
    and q: "exact_quotient (fsub ?xa (x0 page_rect)) sx"
       "exact_quotient (fsub ?ya (y0 page_rect)) sy"
       "exact_quotient (fsub ?xc (x0 page_rect)) sx"
       "exact_quotient (fsub ?yc (y0 page_rect)) sy"
    by (simp_all add: pdf_rect_to_canvas_rect_exact_def exactly_def)
  from q(1) obtain a' where a': "fdiv (fsub ?xa (x0 page_rect)) sx = Inr a'" "is_finite a'"
      "val a' = val (fsub ?xa (x0 page_rect)) / val sx"
    by (rule exact_quotientE)
  from q(2) obtain b' where b': "fdiv (fsub ?ya (y0 page_rect)) sy = Inr b'" "is_finite b'"
      "val b' = val (fsub ?ya (y0 page_rect)) / val sy"
    by (rule exact_quotientE)
  from q(3) obtain c' where c': "fdiv (fsub ?xc (x0 page_rect)) sx = Inr c'" "is_finite c'"
      "val c' = val (fsub ?xc (x0 page_rect)) / val sx"
    by (rule exact_quotientE)
  from q(4) obtain d' where d': "fdiv (fsub ?yc (y0 page_rect)) sy = Inr d'" "is_finite d'"
      "val d' = val (fsub ?yc (y0 page_rect)) / val sy"
    by (rule exact_quotientE)
  have "pdf_rect_to_canvas_rect (Rect ?xa ?ya ?xc ?yc) page_rect (sx, sy) = Inr (a', b', c', d')"
    by (simp add: a'(1) b'(1) c'(1) d'(1))
  moreover have "val a' = val a" "val b' = val b" "val c' = val c" "val d' = val d"
    using nz by (simp_all add: a'(3) b'(3) c'(3) d'(3) s va vc)
  ultimately show ?thesis
    using a'(2) b'(2) c'(2) d'(2) by simp
qed

theorem canvas_pdf_round_trip_witness:
  "\<not> is_zero (D 2) \<and> \<not> is_zero (D 3)
   \<and> canvas_to_pdf_exact (D 10) (D 5) (Rect (D 7) (D 9) (D 207) (D 109)) (D 2, D 3)
   \<and> canvas_to_pdf_exact (D 20) (D 10) (Rect (D 7) (D 9) (D 207) (D 109)) (D 2, D 3)
   \<and> canvas_to_pdf (D 10) (D 5) (Rect (D 7) (D 9) (D 207) (D 109)) (D 2, D 3) = (D 27, D 24)
   \<and> canvas_to_pdf (D 20) (D 10) (Rect (D 7) (D 9) (D 207) (D 109)) (D 2, D 3) = (D 47, D 39)
   \<and> pdf_rect_to_canvas_rect_exact (Rect (D 27) (D 24) (D 47) (D 39))
        (Rect (D 7) (D 9) (D 207) (D 109)) (D 2, D 3)
   \<and> pdf_rect_to_canvas_rect (Rect (D 27) (D 24) (D 47) (D 39))
        (Rect (D 7) (D 9) (D 207) (D 109)) (D 2, D 3)
       = Inr (D 10, D 5, D 20, D 10)
   \<and> (\<exists>a' b' c' d'.
         pdf_rect_to_canvas_rect (Rect (D 27) (D 24) (D 47) (D 39))
           (Rect (D 7) (D 9) (D 207) (D 109)) (D 2, D 3) = Inr (a', b', c', d')
         \<and> val a' = val (D 10) \<and> val b' = val (D 5)
         \<and> val c' = val (D 20) \<and> val d' = val (D 10))"
proof -
  have z: "\<not> is_zero (D 2)" "\<not> is_zero (D 3)"
    by (simp_all add: evals)
  have e1: "canvas_to_pdf_exact (D 10) (D 5) (Rect (D 7) (D 9) (D 207) (D 109)) (D 2, D 3)"
    by (simp add: exact_defs eval_defs evals del: fadd.simps fmul.simps flt.simps feq.simps fdiv.simps)
  have e2: "canvas_to_pdf_exact (D 20) (D 10) (Rect (D 7) (D 9) (D 207) (D 109)) (D 2, D 3)"
    by (simp add: exact_defs eval_defs evals del: fadd.simps fmul.simps flt.simps feq.simps fdiv.simps)
  have v1: "canvas_to_pdf (D 10) (D 5) (Rect (D 7) (D 9) (D 207) (D 109)) (D 2, D 3)
              = (D 27, D 24)"
    by (simp add: eval_defs evals del: fadd.simps fmul.simps flt.simps feq.simps fdiv.simps)
  have v2: "canvas_to_pdf (D 20) (D 10) (Rect (D 7) (D 9) (D 207) (D 109)) (D 2, D 3)
              = (D 47, D 39)"
    by (simp add: eval_defs evals del: fadd.simps fmul.simps flt.simps feq.simps fdiv.simps)
  have e3: "pdf_rect_to_canvas_rect_exact (Rect (D 27) (D 24) (D 47) (D 39))
        (Rect (D 7) (D 9) (D 207) (D 109)) (D 2, D 3)"
    by (simp add: exact_defs eval_defs evals del: fadd.simps fmul.simps flt.simps feq.simps fdiv.simps)
  have v3: "pdf_rect_to_canvas_rect (Rect (D 27) (D 24) (D 47) (D 39))
        (Rect (D 7) (D 9) (D 207) (D 109)) (D 2, D 3)
       = Inr (D 10, D 5, D 20, D 10)"
    by (simp add: eval_defs evals del: fadd.simps fmul.simps flt.simps feq.simps fdiv.simps)
  from canvas_pdf_round_trip
         [OF z e1 e2, unfolded v1 v2 fst_conv snd_conv, OF e3]
  have "\<exists>a' b' c' d'.
         pdf_rect_to_canvas_rect (Rect (D 27) (D 24) (D 47) (D 39))
           (Rect (D 7) (D 9) (D 207) (D 109)) (D 2, D 3) = Inr (a', b', c', d')
         \<and> val a' = val (D 10) \<and> val b' = val (D 5)
         \<and> val c' = val (D 20) \<and> val d' = val (D 10)"
    by blast
  with z e1 e2 v1 v2 e3 v3 show ?thesis by blast
qed

text \<open>
  C2, as the specification states it, fails on the code's floats: the round trip is not
  within a floating-point tolerance for every nonzero scale. With the page origin at
  1e17 and the scale (1, 1), the canvas rectangle (1, 2, 3, 4) comes back as
  (0, 0, 0, 0); with the scale (5e-324, 5e-324), the smallest positive float, and the
  page origin at 0, the canvas rectangle (0.4, 0.4, 0.9, 0.9) comes back as
  (0, 0, 1, 1).
\<close>

theorem canvas_pdf_round_trip_counterexample:
  "\<not> is_zero (D 1)
   \<and> canvas_to_pdf (D 1) (D 2) (Rect (D 100000000000000000) (D 100000000000000000)
                                    (D 100000000000000612) (D 100000000000000792)) (D 1, D 1)
       = (D 100000000000000000, D 100000000000000000)
   \<and> canvas_to_pdf (D 3) (D 4) (Rect (D 100000000000000000) (D 100000000000000000)
                                    (D 100000000000000612) (D 100000000000000792)) (D 1, D 1)
       = (D 100000000000000000, D 100000000000000000)
   \<and> pdf_rect_to_canvas_rect
        (Rect (D 100000000000000000) (D 100000000000000000)
              (D 100000000000000000) (D 100000000000000000))
        (Rect (D 100000000000000000) (D 100000000000000000)
              (D 100000000000000612) (D 100000000000000792)) (D 1, D 1)
       = Inr (D 0, D 0, D 0, D 0)
   \<and> \<not> is_zero (Finite 1 (- 1074))
   \<and> canvas_to_pdf (dec 4 10) (dec 4 10) (Rect (D 0) (D 0) (D 612) (D 792))
        (Finite 1 (- 1074), Finite 1 (- 1074))
       = (D 0, D 0)
   \<and> canvas_to_pdf (dec 9 10) (dec 9 10) (Rect (D 0) (D 0) (D 612) (D 792))
        (Finite 1 (- 1074), Finite 1 (- 1074))
       = (Finite 1 (- 1074), Finite 1 (- 1074))
   \<and> pdf_rect_to_canvas_rect
        (Rect (D 0) (D 0) (Finite 1 (- 1074)) (Finite 1 (- 1074)))
        (Rect (D 0) (D 0) (D 612) (D 792)) (Finite 1 (- 1074), Finite 1 (- 1074))
       = Inr (D 0, D 0, D 1, D 1)"
  by (simp add: eval_defs evals del: fadd.simps fmul.simps flt.simps feq.simps fdiv.simps)

lemma int_truediv_50_100: "int_truediv 50 100 = Inr (Finite 4503599627370496 (- 53))"
  by code_simp

lemma D_10: "D 10 = Finite 5629499534213120 (- 49)"
  by code_simp

lemma D_40: "D 40 = Finite 5629499534213120 (- 47)"
  by code_simp

lemma D_80: "D 80 = Finite 5629499534213120 (- 46)"
  by code_simp

lemma width_80: "\<not> flt pw (D 80) \<Longrightarrow> pymax (D 10) (pymin (D 80) pw) = D 80"
  by (simp add: pymin_def pymax_def D_10 D_80)

lemma height_40: "fmul (D 80) (Finite 4503599627370496 (- 53)) = D 40"
  by code_simp

lemma sub_80: "fsub (D 80) (D 0) = D 80" and sub_40: "fsub (D 40) (D 0) = D 40"
  by code_simp+

lemma max_80: "pymax (D 0) (D 80) = D 80" and max_40: "pymax (D 0) (D 40) = D 40"
  by code_simp+

lemma val_80: "val (D 80) = 80" and val_40: "val (D 40) = 40"
  by (simp_all add: D_80 D_40)

text \<open>
  C3, as the code has it. The width of a new signature rectangle is
  \<open>max(10, min(max_width, page width))\<close>: the image size plays no part in it. The
  height is the width times \<open>image_height / image_width\<close> (the true division of the
  two integers), the aspect being 1 when the image width is zero. The rectangle
  \<open>Rect(x_pdf, y_pdf, x_pdf + width, y_pdf + height)\<close> is anchored at the click
  point mapped to PDF space and passed through \<open>clamp_rect\<close> against the page. For
  \<open>image_size = (100, 50)\<close>, \<open>max_width = 80\<close> and a page at least 80 units wide,
  the computed width is 80 and the computed height 40 wherever the click is; the
  rectangle returned is 80 wide and 40 high whenever the two sums and the clamp are
  exact in float arithmetic.
\<close>

theorem new_signature_rect_dimensions:
  "new_signature_rect cx cy pr sc (iw, ih) mw
     = (case (if iw \<noteq> 0 then int_truediv ih iw else Inr (D 1)) of
          Inl e \<Rightarrow> Inl e
        | Inr aspect \<Rightarrow>
            Inr (clamp_rect
                   (Rect (fst (canvas_to_pdf cx cy pr sc)) (snd (canvas_to_pdf cx cy pr sc))
                         (fadd (fst (canvas_to_pdf cx cy pr sc))
                               (pymax (D 10) (pymin mw (rect_width pr))))
                         (fadd (snd (canvas_to_pdf cx cy pr sc))
                               (fmul (pymax (D 10) (pymin mw (rect_width pr))) aspect)))
                   pr))
   \<and> (\<not> flt (rect_width pr) (D 80) \<longrightarrow>
        new_signature_rect cx cy pr sc (100, 50) (D 80)
          = Inr (clamp_rect
                   (Rect (fst (canvas_to_pdf cx cy pr sc)) (snd (canvas_to_pdf cx cy pr sc))
                         (fadd (fst (canvas_to_pdf cx cy pr sc)) (D 80))
                         (fadd (snd (canvas_to_pdf cx cy pr sc)) (D 40)))
                   pr))
   \<and> (anchored_rect_exact (fst (canvas_to_pdf cx cy pr sc)) (snd (canvas_to_pdf cx cy pr sc))
          (D 80) (D 40) pr \<longrightarrow>
        val (x1 (clamp_rect
                   (Rect (fst (canvas_to_pdf cx cy pr sc)) (snd (canvas_to_pdf cx cy pr sc))
                         (fadd (fst (canvas_to_pdf cx cy pr sc)) (D 80))
                         (fadd (snd (canvas_to_pdf cx cy pr sc)) (D 40)))
                   pr))
          - val (x0 (clamp_rect
                   (Rect (fst (canvas_to_pdf cx cy pr sc)) (snd (canvas_to_pdf cx cy pr sc))
                         (fadd (fst (canvas_to_pdf cx cy pr sc)) (D 80))
                         (fadd (snd (canvas_to_pdf cx cy pr sc)) (D 40)))
                   pr)) = 80
        \<and> val (y1 (clamp_rect
                   (Rect (fst (canvas_to_pdf cx cy pr sc)) (snd (canvas_to_pdf cx cy pr sc))
                         (fadd (fst (canvas_to_pdf cx cy pr sc)) (D 80))
                         (fadd (snd (canvas_to_pdf cx cy pr sc)) (D 40)))
                   pr))
          - val (y0 (clamp_rect
                   (Rect (fst (canvas_to_pdf cx cy pr sc)) (snd (canvas_to_pdf cx cy pr sc))
                         (fadd (fst (canvas_to_pdf cx cy pr sc)) (D 80))
                         (fadd (snd (canvas_to_pdf cx cy pr sc)) (D 40)))
                   pr)) = 40
        \<and> rect_width (clamp_rect
                   (Rect (fst (canvas_to_pdf cx cy pr sc)) (snd (canvas_to_pdf cx cy pr sc))
                         (fadd (fst (canvas_to_pdf cx cy pr sc)) (D 80))
                         (fadd (snd (canvas_to_pdf cx cy pr sc)) (D 40)))
                   pr) = D 80
        \<and> rect_height (clamp_rect
                   (Rect (fst (canvas_to_pdf cx cy pr sc)) (snd (canvas_to_pdf cx cy pr sc))
                         (fadd (fst (canvas_to_pdf cx cy pr sc)) (D 80))
                         (fadd (snd (canvas_to_pdf cx cy pr sc)) (D 40)))
                   pr) = D 40)"
proof -
  let ?xp = "fst (canvas_to_pdf cx cy pr sc)"
  let ?yp = "snd (canvas_to_pdf cx cy pr sc)"
  let ?C = "clamp_rect (Rect ?xp ?yp (fadd ?xp (D 80)) (fadd ?yp (D 40))) pr"
  have unfold: "new_signature_rect cx cy pr sc (iw, ih) mw
     = (case (if iw \<noteq> 0 then int_truediv ih iw else Inr (D 1)) of
          Inl e \<Rightarrow> Inl e
        | Inr aspect \<Rightarrow>
            Inr (clamp_rect
                   (Rect ?xp ?yp
                         (fadd ?xp (pymax (D 10) (pymin mw (rect_width pr))))
                         (fadd ?yp (fmul (pymax (D 10) (pymin mw (rect_width pr))) aspect)))
                   pr))" for iw ih mw
    by (simp add: Let_def split: prod.splits sum.splits)
  have example: "\<not> flt (rect_width pr) (D 80) \<longrightarrow>
        new_signature_rect cx cy pr sc (100, 50) (D 80) = Inr ?C"
    by (simp only: unfold) (simp add: int_truediv_50_100 width_80 height_40)
  have exact: "anchored_rect_exact ?xp ?yp (D 80) (D 40) pr \<longrightarrow>
        val (x1 ?C) - val (x0 ?C) = 80 \<and> val (y1 ?C) - val (y0 ?C) = 40
        \<and> rect_width ?C = D 80 \<and> rect_height ?C = D 40"
  proof
    assume a: "anchored_rect_exact ?xp ?yp (D 80) (D 40) pr"
    show "val (x1 ?C) - val (x0 ?C) = 80 \<and> val (y1 ?C) - val (y0 ?C) = 40
        \<and> rect_width ?C = D 80 \<and> rect_height ?C = D 40"
      using anchored_rect(2,3,4,5) [OF a]
      by (simp add: rect_width_def rect_height_def sub_80 sub_40 max_80 max_40 val_80 val_40)
  qed
  from unfold [of iw ih mw] example exact show ?thesis by blast
qed

theorem new_signature_rect_dimensions_witness:
  "\<not> flt (rect_width (Rect (D 0) (D 0) (D 300) (D 300))) (D 80)
   \<and> canvas_to_pdf (D 290) (D 295) (Rect (D 0) (D 0) (D 300) (D 300)) (D 1, D 1)
       = (D 290, D 295)
   \<and> anchored_rect_exact (D 290) (D 295) (D 80) (D 40) (Rect (D 0) (D 0) (D 300) (D 300))
   \<and> new_signature_rect (D 290) (D 295) (Rect (D 0) (D 0) (D 300) (D 300)) (D 1, D 1)
        (100, 50) (D 80)
       = Inr (Rect (D 220) (D 260) (D 300) (D 300))
   \<and> rect_width (Rect (D 220) (D 260) (D 300) (D 300)) = D 80
   \<and> rect_height (Rect (D 220) (D 260) (D 300) (D 300)) = D 40"
proof -
  have h: "\<not> flt (rect_width (Rect (D 0) (D 0) (D 300) (D 300))) (D 80)"
    by (simp add: eval_defs evals del: fadd.simps fmul.simps flt.simps feq.simps fdiv.simps)
  have v: "canvas_to_pdf (D 290) (D 295) (Rect (D 0) (D 0) (D 300) (D 300)) (D 1, D 1)
             = (D 290, D 295)"
    by (simp add: eval_defs evals del: fadd.simps fmul.simps flt.simps feq.simps fdiv.simps)
  have a: "anchored_rect_exact (D 290) (D 295) (D 80) (D 40) (Rect (D 0) (D 0) (D 300) (D 300))"
    by (simp add: exact_defs eval_defs evals del: fadd.simps fmul.simps flt.simps feq.simps fdiv.simps)
  have c: "clamp_rect (Rect (D 290) (D 295) (fadd (D 290) (D 80)) (fadd (D 295) (D 40)))
             (Rect (D 0) (D 0) (D 300) (D 300))
           = Rect (D 220) (D 260) (D 300) (D 300)"
    by (simp add: eval_defs evals del: fadd.simps fmul.simps flt.simps feq.simps fdiv.simps)
  note t = new_signature_rect_dimensions
             [where cx = "D 290" and cy = "D 295" and pr = "Rect (D 0) (D 0) (D 300) (D 300)"
                and sc = "(D 1, D 1)", unfolded v fst_conv snd_conv c]
  from t h have r: "new_signature_rect (D 290) (D 295) (Rect (D 0) (D 0) (D 300) (D 300))
        (D 1, D 1) (100, 50) (D 80)
       = Inr (Rect (D 220) (D 260) (D 300) (D 300))"
    by blast
  from t a have d: "rect_width (Rect (D 220) (D 260) (D 300) (D 300)) = D 80"
      "rect_height (Rect (D 220) (D 260) (D 300) (D 300)) = D 40"
    by blast+
  from h v a r d show ?thesis by blast
qed

text \<open>
  C3, as the specification states it, fails on the code. The specification words the
  width as a clamp of an image-derived default: with the image's own pixel width as that
  default, a 20 by 10 image on a 300 by 300 page with \<open>max_width = 80\<close> would be
  placed 20 wide; the code places it 80 wide. And the height is not 40 wherever the
  click is: on a 612 by 792 page at the scale (612/700, 792/906), the click (0, 273)
  gives a rectangle whose \<open>Rect.height\<close> is 40.00000000000003.
\<close>

theorem new_signature_rect_width_counterexample:
  "new_signature_rect (D 0) (D 0) (Rect (D 0) (D 0) (D 300) (D 300)) (D 1, D 1) (20, 10) (D 80)
     = Inr (Rect (D 0) (D 0) (D 80) (D 40))
   \<and> rect_width (Rect (D 0) (D 0) (D 80) (D 40)) = D 80
   \<and> spec_signature_width (D 20) (D 80) (rect_width (Rect (D 0) (D 0) (D 300) (D 300))) = D 20
   \<and> new_signature_rect (D 0) (D 273) (Rect (D 0) (D 0) (D 612) (D 792))
        (dec 612 700, dec 792 906) (100, 50) (D 80)
     = Inr (Rect (Finite 0 (- 1074)) (Finite 8396715447636755 (- 45)) (Finite 5629499534213120 (- 46)) (Finite 4902045165595018 (- 44)))
   \<and> flt (D 40) (rect_height (Rect (Finite 0 (- 1074)) (Finite 8396715447636755 (- 45)) (Finite 5629499534213120 (- 46)) (Finite 4902045165595018 (- 44))))"
  by (simp add: spec_signature_width_def int_truediv_50_100 eval_defs evals del: fadd.simps fmul.simps flt.simps feq.simps fdiv.simps)

section \<open>SignatureController\<close>












text \<open>
  C5. From every state of the signature controller, a placed one included,
  \<open>set_image\<close> records the new image path and clears the rectangle and the page
  index; the controller is then in the state the specification calls ImageLoaded.
\<close>

theorem set_image_resets_placement:
  "image_path (set_image p s) = Some p
   \<and> sig_rect (set_image p s) = None
   \<and> sig_page_index (set_image p s) = None
   \<and> max_width_points (set_image p s) = max_width_points s
   \<and> spec_state (set_image p s) = ImageLoaded"
  by (simp add: set_image_def spec_state_def)




section \<open>DocumentController\<close>

lemma doc_inv_init: "doc_inv (DocumentController opener)"
  by (simp add: doc_inv_def DocumentController_def)

lemma doc_inv_next_page: "doc_inv s \<Longrightarrow> doc_inv (next_page s)"
  by (cases "doc s") (auto simp add: doc_inv_def next_page_def page_count_def split: if_splits)

lemma doc_inv_prev_page: "doc_inv s \<Longrightarrow> doc_inv (prev_page s)"
  by (cases "doc s") (auto simp add: doc_inv_def prev_page_def page_count_def split: if_splits)

lemma doc_inv_clamp_page_index: "doc_inv s \<Longrightarrow> doc_inv (clamp_page_index s)"
  by (cases "doc s")
     (auto simp add: doc_inv_def clamp_page_index_def page_count_def split: if_splits)

lemma doc_inv_close: "doc_inv (close s)"
  by (simp add: doc_inv_def close_def)

lemma doc_inv_open_doc: "doc_inv s \<Longrightarrow> doc_inv (snd (open_doc p s))"
  by (auto simp add: doc_inv_def open_doc_def page_count_def doc_len_def split: sum.splits)

lemma doc_inv_reload: "doc_inv s \<Longrightarrow> doc_inv (snd (reload p s))"
  using doc_inv_open_doc [of s p]
  by (auto simp add: reload_def split: sum.splits prod.splits)

lemma next_page_at_last: "page_index s = page_count s - 1 \<Longrightarrow> next_page s = s"
  by (simp add: next_page_def)

lemma prev_page_at_first: "page_index s = 0 \<Longrightarrow> prev_page s = s"
  by (simp add: prev_page_def)

lemma open_doc_resets: "open_pdf s p = Inr d \<Longrightarrow> page_index (snd (open_doc p s)) = 0"
  by (simp add: open_doc_def)

lemma close_then_clamp: "page_index (clamp_page_index (close s)) = 0"
  by (simp add: clamp_page_index_def close_def)

text \<open>
  C6. The page index invariant: while the controller holds a document (one that is true
  in the tests of its methods, so one with at least one page) the index satisfies
  \<open>0 \<le> page_index < page_count\<close>, and it is 0 otherwise. The invariant holds for a
  new controller and after \<open>close\<close>, and \<open>next_page\<close>, \<open>prev_page\<close>,
  \<open>clamp_page_index\<close>, \<open>open\<close> and \<open>reload\<close> preserve it. \<open>next_page\<close> at
  the last index and \<open>prev_page\<close> at index 0 change nothing, a successful \<open>open\<close>
  sets the index to 0, and \<open>clamp_page_index\<close> after \<open>close\<close> gives index 0.
\<close>

theorem page_index_invariant:
  "doc_inv (DocumentController opener)
   \<and> doc_inv (close s)
   \<and> (doc_inv s \<longrightarrow>
        doc_inv (next_page s) \<and> doc_inv (prev_page s) \<and> doc_inv (clamp_page_index s)
        \<and> doc_inv (snd (open_doc p s)) \<and> doc_inv (snd (reload p s)))
   \<and> (page_index s = page_count s - 1 \<longrightarrow> next_page s = s)
   \<and> (page_index s = 0 \<longrightarrow> prev_page s = s)
   \<and> (open_pdf s p = Inr d \<longrightarrow> page_index (snd (open_doc p s)) = 0)
   \<and> page_index (clamp_page_index (close s)) = 0"
  using doc_inv_init [of opener] doc_inv_close [of s] doc_inv_next_page [of s]
        doc_inv_prev_page [of s] doc_inv_clamp_page_index [of s] doc_inv_open_doc [of s p]
        doc_inv_reload [of s p] next_page_at_last [of s] prev_page_at_first [of s]
        open_doc_resets [of s p d] close_then_clamp [of s]
  by blast

theorem page_index_invariant_witness:
  "doc_inv \<lparr>open_pdf = (\<lambda>f. Inr (Document [[], [], []])),
            doc = Some (Document [[], []]), current_file = Some ''dummy.pdf'',
            page_index = 1\<rparr>
   \<and> page_index \<lparr>open_pdf = (\<lambda>f. Inr (Document [[], [], []])),
            doc = Some (Document [[], []]), current_file = Some ''dummy.pdf'',
            page_index = 1\<rparr>
       = page_count \<lparr>open_pdf = (\<lambda>f. Inr (Document [[], [], []])),
            doc = Some (Document [[], []]), current_file = Some ''dummy.pdf'',
            page_index = 1\<rparr> - 1
   \<and> next_page \<lparr>open_pdf = (\<lambda>f. Inr (Document [[], [], []])),
            doc = Some (Document [[], []]), current_file = Some ''dummy.pdf'',
            page_index = 1\<rparr>
       = \<lparr>open_pdf = (\<lambda>f. Inr (Document [[], [], []])),
            doc = Some (Document [[], []]), current_file = Some ''dummy.pdf'',
            page_index = 1\<rparr>
   \<and> doc_inv (prev_page \<lparr>open_pdf = (\<lambda>f. Inr (Document [[], [], []])),
            doc = Some (Document [[], []]), current_file = Some ''dummy.pdf'',
            page_index = 1\<rparr>)
   \<and> page_index (prev_page \<lparr>open_pdf = (\<lambda>f. Inr (Document [[], [], []])),
            doc = Some (Document [[], []]), current_file = Some ''dummy.pdf'',
            page_index = 1\<rparr>) = 0
   \<and> page_index (snd (open_doc ''other.pdf'' \<lparr>open_pdf = (\<lambda>f. Inr (Document [[], [], []])),
            doc = Some (Document [[], []]), current_file = Some ''dummy.pdf'',
            page_index = 1\<rparr>)) = 0
   \<and> page_count (snd (open_doc ''other.pdf'' \<lparr>open_pdf = (\<lambda>f. Inr (Document [[], [], []])),
            doc = Some (Document [[], []]), current_file = Some ''dummy.pdf'',
            page_index = 1\<rparr>)) = 3"
  using page_index_invariant
          [where s = "\<lparr>open_pdf = (\<lambda>f. Inr (Document [[], [], []])),
                       doc = Some (Document [[], []]), current_file = Some ''dummy.pdf'',
                       page_index = 1\<rparr>"
             and p = "''other.pdf''" and d = "Document [[], [], []]"]
  by (simp add: doc_inv_def page_count_def doc_len_def next_page_def prev_page_def
        open_doc_def)

lemma reload_reraises_other:
  "open_pdf s p = Inl e \<Longrightarrow> \<not> is_RuntimeError e \<Longrightarrow> reload p s = (Inl e, s)"
  by (simp add: reload_def open_doc_def)

text \<open>
  C8. When the opener raises, \<open>open\<close> passes the exception on and the controller's
  \<open>doc\<close>, \<open>current_file\<close> and \<open>page_index\<close> are what they were before the call.
  The PDF library reports a file it cannot open with exceptions derived from
  \<open>RuntimeError\<close>; for these \<open>reload\<close> returns \<open>None\<close> instead of raising, again
  with the state unchanged.
\<close>

theorem open_failure_keeps_state:
  "(open_pdf s p = Inl e \<longrightarrow> open_doc p s = (Inl e, s))
   \<and> (open_pdf s p = Inl e \<and> is_RuntimeError e \<longrightarrow> reload p s = (Inr None, s))"
  by (simp add: reload_def open_doc_def)

theorem open_failure_keeps_state_witness:
  "open_pdf \<lparr>open_pdf = (\<lambda>f. Inl RuntimeError), doc = Some (Document [[], []]),
             current_file = Some ''dummy.pdf'', page_index = 1\<rparr> ''x.pdf''
     = Inl RuntimeError
   \<and> is_RuntimeError RuntimeError
   \<and> open_doc ''x.pdf''
        \<lparr>open_pdf = (\<lambda>f. Inl RuntimeError), doc = Some (Document [[], []]),
          current_file = Some ''dummy.pdf'', page_index = 1\<rparr>
     = (Inl RuntimeError,
        \<lparr>open_pdf = (\<lambda>f. Inl RuntimeError), doc = Some (Document [[], []]),
          current_file = Some ''dummy.pdf'', page_index = 1\<rparr>)
   \<and> reload ''x.pdf''
        \<lparr>open_pdf = (\<lambda>f. Inl RuntimeError), doc = Some (Document [[], []]),
          current_file = Some ''dummy.pdf'', page_index = 1\<rparr>
     = (Inr None,
        \<lparr>open_pdf = (\<lambda>f. Inl RuntimeError), doc = Some (Document [[], []]),
          current_file = Some ''dummy.pdf'', page_index = 1\<rparr>)"
  using open_failure_keeps_state
          [where s = "\<lparr>open_pdf = (\<lambda>f. Inl RuntimeError), doc = Some (Document [[], []]),
                       current_file = Some ''dummy.pdf'', page_index = 1\<rparr>"
             and p = "''x.pdf''" and e = RuntimeError]
  by simp

section \<open>insert_image\<close>

lemma insert_image_missing_image:
  "\<not> path_exists p \<Longrightarrow>
   insert_image load_page path_exists d p i r
     = Some (Inl (PDFOperationError (ImagePathDoesNotExist p)), d)"
  by (simp add: insert_image_def)

lemma insert_image_wraps_IndexError:
  "path_exists p \<Longrightarrow> load_page d i = Some (Inl IndexError) \<Longrightarrow>
   insert_image load_page path_exists d p i r
     = Some (Inl (PDFOperationError (PageOutOfRange i (length (pages d)))), d)"
  by (simp add: insert_image_def)

lemma insert_image_other_exception:
  "path_exists p \<Longrightarrow> load_page d i = Some (Inl e) \<Longrightarrow> e \<noteq> IndexError \<Longrightarrow>
   insert_image load_page path_exists d p i r = Some (Inl e, d)"
  by (simp add: insert_image_def)

lemma insert_image_error_keeps_document:
  "insert_image load_page path_exists d p i r = Some (Inl e, d') \<Longrightarrow> d' = d"
  by (auto simp add: insert_image_def Let_def split: if_splits sum.splits option.splits)

lemma list_load_page_beyond: "doc_len d \<le> i \<Longrightarrow> list_load_page d i = Some (Inl IndexError)"
  by (auto simp add: list_load_page_def doc_len_def)

lemma pymupdf_load_page_beyond:
  "doc_len d \<le> i \<Longrightarrow> pymupdf_load_page d i = Some (Inl ValueError)"
  by (simp add: pymupdf_load_page_def)

lemma pymupdf_load_page_in_range:
  "0 \<le> i \<Longrightarrow> i < doc_len d \<Longrightarrow> pymupdf_load_page d i = Some (Inr (nat i))"
  by (simp add: pymupdf_load_page_def wrap_page_id.simps)

lemma insert_image_list_document_beyond:
  "path_exists p \<Longrightarrow> doc_len d \<le> i \<Longrightarrow>
   insert_image list_load_page path_exists d p i r
     = Some (Inl (PDFOperationError (PageOutOfRange i (length (pages d)))), d)"
  by (simp add: insert_image_wraps_IndexError list_load_page_beyond)

lemma insert_image_pymupdf_beyond:
  "path_exists p \<Longrightarrow> doc_len d \<le> i \<Longrightarrow>
   insert_image pymupdf_load_page path_exists d p i r = Some (Inl ValueError, d)"
  by (simp add: insert_image_other_exception pymupdf_load_page_beyond)

text \<open>
  C9. The handler of \<open>insert_image\<close> wraps \<open>IndexError\<close> into a
  \<open>PDFOperationError\<close>, which covers a document whose \<open>load_page\<close> indexes a list
  (lemma \<open>insert_image_list_document_beyond\<close>), and every error path leaves the
  document as it was (lemma \<open>insert_image_error_keeps_document\<close>). The library's
  document reports the index with \<open>ValueError\<close> and is not covered: on a one-page
  document and page index 5, with the image file present, the \<open>ValueError\<close> leaves
  \<open>insert_image\<close> unwrapped.
\<close>

theorem insert_image_ValueError_escapes:
  "insert_image pymupdf_load_page (\<lambda>f. True) (Document [[]]) ''sig.png'' 5 None
     = Some (Inl ValueError, Document [[]])"
  by (simp add: insert_image_def pymupdf_load_page_def doc_len_def)

end
